theory Spec2Isabelle
  imports Main
begin

section \<open>The world outside the scripts\<close>

text \<open>
  Both scripts (\<open>run-tests.py\<close>, \<open>start-server.py\<close>) are sequential drivers around
  \<open>subprocess.run\<close>. Everything they do to the outside world is recorded, in order, in
  a trace of events; everything the outside world decides is read from an environment.

  Text is a list of 8-bit characters: a Python string is modelled by its UTF-8 encoding,
  so the emoji of the source appear as their bytes.
\<close>

type_synonym cmd = "string list"

datatype event =
    Chdir_script_dir          \<comment> \<open>\<open>os.chdir(script_dir)\<close>\<close>
  | Print string              \<comment> \<open>one call of \<open>print\<close>: a line on standard output\<close>
  | Run cmd                   \<comment> \<open>one call of \<open>subprocess.run\<close> with this argument vector\<close>
  | Path_exists string        \<comment> \<open>one call of \<open>os.path.exists\<close>\<close>
  | Sleep nat                 \<comment> \<open>\<open>time.sleep\<close>, in seconds\<close>
  | Argparse_help             \<comment> \<open>argparse prints the help text\<close>
  | Argparse_error            \<comment> \<open>argparse prints a usage error\<close>

type_synonym trace = "event list"

text \<open>
  What one \<open>subprocess.run\<close> can do: the child runs and ends with a return code (negative
  when a signal killed it, as \<open>subprocess\<close> reports on POSIX) and, when captured, its
  standard output; or the program is not found; or the operator interrupts while the
  script waits for the child. Interrupts are modelled there, where the scripts handle
  them, and not between two statements or during \<open>time.sleep\<close>.
\<close>

datatype proc_outcome =
    Completed int string
  | Not_found
  | Interrupted

datatype exn =
    CalledProcessError int
  | FileNotFoundError
  | KeyboardInterrupt
  | SystemExit int

text \<open>
  The environment: \<open>runner\<close> decides every invocation from the invocations made before
  it and the command; \<open>path_exists\<close> is the file system as \<open>os.path.exists\<close> sees it;
  \<open>system\<close> is \<open>platform.system()\<close>; \<open>signal_name\<close> is the name that the host's
  \<open>signal.Signals\<close> has for a signal number, if it has one.
\<close>

record env =
  runner :: "cmd list \<Rightarrow> cmd \<Rightarrow> proc_outcome"
  path_exists :: "string \<Rightarrow> bool"
  system :: string
  signal_name :: "nat \<Rightarrow> string option"

fun spawned :: "trace \<Rightarrow> cmd list" where
  "spawned [] = []"
| "spawned (Run c # es) = c # spawned es"
| "spawned (e # es) = spawned es"

fun printed :: "trace \<Rightarrow> string list" where
  "printed [] = []"
| "printed (Print s # es) = s # printed es"
| "printed (e # es) = printed es"

text \<open>
  \<open>subprocess.run(cmd, check=...)\<close>: with \<open>check=True\<close> a non-zero return code is raised
  as \<open>CalledProcessError\<close>. The result is the return code and the child's output.
\<close>

definition subprocess_run :: "env \<Rightarrow> bool \<Rightarrow> cmd \<Rightarrow> trace \<Rightarrow> (exn + int \<times> string) \<times> trace" where
  "subprocess_run e check c tr =
     (case runner e (spawned tr) c of
        Not_found \<Rightarrow> (Inl FileNotFoundError, tr @ [Run c])
      | Interrupted \<Rightarrow> (Inl KeyboardInterrupt, tr @ [Run c])
      | Completed rc out \<Rightarrow>
          if check \<and> rc \<noteq> 0 then (Inl (CalledProcessError rc), tr @ [Run c])
          else (Inr (rc, out), tr @ [Run c]))"

subsection \<open>Text\<close>

definition digit_char :: "nat \<Rightarrow> char" where
  "digit_char d = char_of (48 + d)"

function str_nat :: "nat \<Rightarrow> string" where
  "str_nat n = (if n < 10 then [digit_char n] else str_nat (n div 10) @ [digit_char (n mod 10)])"
  by pat_completeness auto
termination
  by (relation "measure (\<lambda>n. n)") auto

text \<open>\<open>str(i)\<close> for a Python integer, as an f-string formats it.\<close>

definition str_int :: "int \<Rightarrow> string" where
  "str_int i = (if i < 0 then CHR ''-'' # str_nat (nat (- i)) else str_nat (nat i))"

definition startswith :: "string \<Rightarrow> string \<Rightarrow> bool" where
  "startswith s p = (take (length p) s = p)"

definition endswith :: "string \<Rightarrow> string \<Rightarrow> bool" where
  "endswith s p = (length p \<le> length s \<and> drop (length s - length p) s = p)"

text \<open>
  The white space that \<open>str.strip()\<close> removes: the characters for which \<open>str.isspace\<close>
  holds, each as its UTF-8 bytes (U+0009 to U+000D, U+001C to U+0020, U+0085, U+00A0,
  U+1680, U+2000 to U+200A, U+2028, U+2029, U+202F, U+205F, U+3000).
\<close>

definition whitespace :: "string list" where
  "whitespace =
     [[CHR 0x09], [CHR 0x0A], [CHR 0x0B], [CHR 0x0C], [CHR 0x0D],
      [CHR 0x1C], [CHR 0x1D], [CHR 0x1E], [CHR 0x1F], [CHR 0x20],
      [CHR 0xC2, CHR 0x85], [CHR 0xC2, CHR 0xA0],
      [CHR 0xE1, CHR 0x9A, CHR 0x80],
      [CHR 0xE2, CHR 0x80, CHR 0x80], [CHR 0xE2, CHR 0x80, CHR 0x81],
      [CHR 0xE2, CHR 0x80, CHR 0x82], [CHR 0xE2, CHR 0x80, CHR 0x83],
      [CHR 0xE2, CHR 0x80, CHR 0x84], [CHR 0xE2, CHR 0x80, CHR 0x85],
      [CHR 0xE2, CHR 0x80, CHR 0x86], [CHR 0xE2, CHR 0x80, CHR 0x87],
      [CHR 0xE2, CHR 0x80, CHR 0x88], [CHR 0xE2, CHR 0x80, CHR 0x89],
      [CHR 0xE2, CHR 0x80, CHR 0x8A],
      [CHR 0xE2, CHR 0x80, CHR 0xA8], [CHR 0xE2, CHR 0x80, CHR 0xA9],
      [CHR 0xE2, CHR 0x80, CHR 0xAF],
      [CHR 0xE2, CHR 0x81, CHR 0x9F],
      [CHR 0xE3, CHR 0x80, CHR 0x80]]"

text \<open>
  Each round of \<open>lstrip\<close> and \<open>rstrip\<close> removes one white-space character, so as many
  rounds as the text has bytes are enough.
\<close>

primrec lstrip_rounds :: "nat \<Rightarrow> string \<Rightarrow> string" where
  "lstrip_rounds 0 s = s"
| "lstrip_rounds (Suc n) s =
     (case find (startswith s) whitespace of
        None \<Rightarrow> s
      | Some w \<Rightarrow> lstrip_rounds n (drop (length w) s))"

primrec rstrip_rounds :: "nat \<Rightarrow> string \<Rightarrow> string" where
  "rstrip_rounds 0 s = s"
| "rstrip_rounds (Suc n) s =
     (case find (endswith s) whitespace of
        None \<Rightarrow> s
      | Some w \<Rightarrow> rstrip_rounds n (take (length s - length w) s))"

definition strip :: "string \<Rightarrow> string" where
  "strip s = (let l = lstrip_rounds (length s) s in rstrip_rounds (length l) l)"

definition emoji_test_tube :: string where
  "emoji_test_tube = [CHR 0xF0, CHR 0x9F, CHR 0xA7, CHR 0xAA]"
definition emoji_bar_chart :: string where
  "emoji_bar_chart = [CHR 0xF0, CHR 0x9F, CHR 0x93, CHR 0x8A]"
definition emoji_warning :: string where
  "emoji_warning = [CHR 0xE2, CHR 0x9A, CHR 0xA0, CHR 0xEF, CHR 0xB8, CHR 0x8F]"
definition emoji_cross :: string where
  "emoji_cross = [CHR 0xE2, CHR 0x9D, CHR 0x8C]"
definition emoji_magnifier :: string where
  "emoji_magnifier = [CHR 0xF0, CHR 0x9F, CHR 0x94, CHR 0x8D]"
definition emoji_check :: string where
  "emoji_check = [CHR 0xE2, CHR 0x9C, CHR 0x85]"
definition emoji_construction :: string where
  "emoji_construction = [CHR 0xF0, CHR 0x9F, CHR 0x8F, CHR 0x97, CHR 0xEF, CHR 0xB8, CHR 0x8F]"
definition emoji_direct_hit :: string where
  "emoji_direct_hit = [CHR 0xF0, CHR 0x9F, CHR 0x8E, CHR 0xAF]"
definition emoji_chart_up :: string where
  "emoji_chart_up = [CHR 0xF0, CHR 0x9F, CHR 0x93, CHR 0x88]"
definition emoji_runner :: string where
  "emoji_runner = [CHR 0xF0, CHR 0x9F, CHR 0x8F, CHR 0x83]"
definition emoji_eyes :: string where
  "emoji_eyes = [CHR 0xF0, CHR 0x9F, CHR 0x91, CHR 0x80]"
definition emoji_stop_sign :: string where
  "emoji_stop_sign = [CHR 0xF0, CHR 0x9F, CHR 0x9B, CHR 0x91]"
definition emoji_party :: string where
  "emoji_party = [CHR 0xF0, CHR 0x9F, CHR 0x8E, CHR 0x89]"

section \<open>The test runner, \<open>run-tests.py\<close>\<close>

definition print_banner :: "trace \<Rightarrow> trace" where
  "print_banner tr = tr @
     [Print (emoji_test_tube @ '' Wikipedia MCP Server - Test Runner''),
      Print (replicate 37 CHR ''='')]"

definition dotnet_version_cmd :: cmd where
  "dotnet_version_cmd = [''dotnet'', ''--version'']"

text \<open>
  \<open>check_dotnet\<close> catches \<open>CalledProcessError\<close> and \<open>FileNotFoundError\<close>; an interrupt
  is not caught and leaves the function as an exception.
\<close>

definition check_dotnet :: "env \<Rightarrow> trace \<Rightarrow> (exn + bool) \<times> trace" where
  "check_dotnet e tr =
     (case subprocess_run e True dotnet_version_cmd tr of
        (Inr (rc, out), tr1) \<Rightarrow>
          (let version = strip out;
               tr2 = tr1 @ [Print (emoji_bar_chart @ '' .NET SDK Version: '' @ version)];
               tr3 = (if \<not> startswith version ''8.''
                      then tr2 @
                        [Print (emoji_warning @ ''  Warning: Using .NET '' @ version @ '' instead of .NET 8''),
                         Print ''   global.json should pin to .NET 8.0.406'']
                      else tr2)
           in (Inr True, tr3 @ [Print []]))
      | (Inl KeyboardInterrupt, tr1) \<Rightarrow> (Inl KeyboardInterrupt, tr1)
      | (Inl (SystemExit n), tr1) \<Rightarrow> (Inl (SystemExit n), tr1)
      | (Inl _, tr1) \<Rightarrow>
          (Inr False, tr1 @
             [Print (emoji_cross @ '' .NET SDK not found. Please install .NET 8.0 SDK''),
              Print ''   Download from: https://dotnet.microsoft.com/download'']))"

definition test_cmd :: "string \<Rightarrow> cmd" where
  "test_cmd project_path =
     [''dotnet'', ''test'', project_path,
      ''--verbosity'', ''normal'',
      ''--logger'', ''console;verbosity=normal'',
      ''--configuration'', ''Release'',
      ''--no-build'',
      ''--collect:XPlat Code Coverage'']"

text \<open>
  \<open>run_test_project\<close> returns 0, or the return code of a failed run. Only
  \<open>CalledProcessError\<close> is caught; the \<open>finally\<close> clause prints an empty line on every
  path.
\<close>

definition run_test_project :: "env \<Rightarrow> string \<Rightarrow> string \<Rightarrow> string \<Rightarrow> trace \<Rightarrow> (exn + int) \<times> trace" where
  "run_test_project e project_name project_path description tr =
     (let tr0 = tr @
            [Print (emoji_magnifier @ '' Running '' @ project_name @ '' tests...''),
             Print (''   Description: '' @ description),
             Print (''   Path: '' @ project_path)]
      in case subprocess_run e True (test_cmd project_path) tr0 of
           (Inr _, tr1) \<Rightarrow>
             (Inr 0, tr1 @ [Print (emoji_check @ '' '' @ project_name @ '' tests PASSED''), Print []])
         | (Inl (CalledProcessError rc), tr1) \<Rightarrow>
             (Inr rc, tr1 @
                [Print (emoji_cross @ '' '' @ project_name @ '' tests FAILED (exit code: ''
                          @ str_int rc @ '')''),
                 Print []])
         | (Inl x, tr1) \<Rightarrow> (Inl x, tr1 @ [Print []]))"

definition build_cmd :: cmd where
  "build_cmd = [''dotnet'', ''build'', ''--configuration'', ''Release'']"

definition build_solution :: "env \<Rightarrow> trace \<Rightarrow> (exn + bool) \<times> trace" where
  "build_solution e tr =
     (let tr0 = tr @ [Print (emoji_construction @ ''  Building solution first...'')]
      in case subprocess_run e True build_cmd tr0 of
           (Inr _, tr1) \<Rightarrow> (Inr True, tr1 @ [Print (emoji_check @ '' Build successful!''), Print []])
         | (Inl (CalledProcessError rc), tr1) \<Rightarrow>
             (Inr False, tr1 @ [Print (emoji_cross @ '' Build failed. Cannot run tests.'')])
         | (Inl x, tr1) \<Rightarrow> (Inl x, tr1))"

definition unit_project :: "string \<times> string \<times> string" where
  "unit_project = (''Unit'',
     ''tests/WikipediaMcpServer.UnitTests/WikipediaMcpServer.UnitTests.csproj'',
     ''Core business logic and utility function tests'')"

definition service_project :: "string \<times> string \<times> string" where
  "service_project = (''Service'',
     ''tests/WikipediaMcpServer.ServiceTests/WikipediaMcpServer.ServiceTests.csproj'',
     ''Wikipedia service and MCP service layer tests'')"

definition integration_project :: "string \<times> string \<times> string" where
  "integration_project = (''Integration'',
     ''tests/WikipediaMcpServer.IntegrationTests/WikipediaMcpServer.IntegrationTests.csproj'',
     ''End-to-end API and HTTP endpoint tests'')"

definition stdio_project :: "string \<times> string \<times> string" where
  "stdio_project = (''Stdio'',
     ''tests/WikipediaMcpServer.StdioTests/WikipediaMcpServer.StdioTests.csproj'',
     ''Standard I/O mode and MCP protocol tests'')"

definition test_projects :: "(string \<times> string \<times> string) list" where
  "test_projects = [unit_project, service_project, integration_project, stdio_project]"

text \<open>
  The loop of \<open>run_all_tests\<close>: \<open>total_failures += run_test_project(name, path, desc)\<close>
  for each project in turn. An exception leaving \<open>run_test_project\<close> leaves the loop.
\<close>

fun run_projects :: "env \<Rightarrow> int \<Rightarrow> (string \<times> string \<times> string) list \<Rightarrow> trace \<Rightarrow> (exn + int) \<times> trace" where
  "run_projects e total_failures [] tr = (Inr total_failures, tr)"
| "run_projects e total_failures ((name, path, desc) # ps) tr =
     (case run_test_project e name path desc tr of
        (Inr rc, tr1) \<Rightarrow> run_projects e (total_failures + rc) ps tr1
      | (Inl x, tr1) \<Rightarrow> (Inl x, tr1))"

definition run_all_tests :: "env \<Rightarrow> trace \<Rightarrow> (exn + int) \<times> trace" where
  "run_all_tests e tr =
     (let tr0 = tr @ [Print (emoji_direct_hit @ '' Running ALL test projects...''), Print []]
      in case build_solution e tr0 of
           (Inr built, tr1) \<Rightarrow>
             if \<not> built then (Inr 1, tr1) else run_projects e 0 test_projects tr1
         | (Inl x, tr1) \<Rightarrow> (Inl x, tr1))"

definition coverage_cmd :: cmd where
  "coverage_cmd =
     [''dotnet'', ''test'',
      ''--configuration'', ''Release'',
      ''--collect:XPlat Code Coverage'',
      ''--results-directory'', ''./TestResults'',
      ''--logger'', ''trx;LogFileName=TestResults.trx'',
      ''--verbosity'', ''normal'']"

definition run_tests_with_coverage :: "env \<Rightarrow> trace \<Rightarrow> (exn + int) \<times> trace" where
  "run_tests_with_coverage e tr =
     (let tr0 = tr @ [Print (emoji_chart_up @ '' Running all tests with code coverage...'')]
      in case subprocess_run e True coverage_cmd tr0 of
           (Inr _, tr1) \<Rightarrow>
             (Inr 0, tr1 @
                [Print [],
                 Print (emoji_bar_chart @ '' Test results saved to: ./TestResults/''),
                 Print (emoji_magnifier @ '' Coverage reports generated in: ./TestResults/*/coverage.cobertura.xml'')])
         | (Inl (CalledProcessError rc), tr1) \<Rightarrow> (Inr rc, tr1)
         | (Inl x, tr1) \<Rightarrow> (Inl x, tr1))"

text \<open>The dictionary \<open>test_configs\<close> of \<open>run_specific_tests\<close>.\<close>

definition test_configs :: "string \<rightharpoonup> string \<times> string \<times> string" where
  "test_configs = map_of
     [(''unit'', unit_project),
      (''service'', service_project),
      (''integration'', integration_project),
      (''stdio'', stdio_project)]"

definition run_specific_tests :: "env \<Rightarrow> string \<Rightarrow> trace \<Rightarrow> (exn + int) \<times> trace" where
  "run_specific_tests e category tr =
     (case test_configs category of
        None \<Rightarrow>
          (Inr 1, tr @
             [Print (emoji_cross @ '' Unknown test category: '' @ category),
              Print ''   Available categories: unit, service, integration, stdio''])
      | Some (name, path, desc) \<Rightarrow> run_test_project e name path desc tr)"

definition fast_cmd :: cmd where
  "fast_cmd = [''dotnet'', ''test'', ''--no-build'', ''--verbosity'', ''normal'']"

definition run_fast_tests :: "env \<Rightarrow> trace \<Rightarrow> (exn + int) \<times> trace" where
  "run_fast_tests e tr =
     (let tr0 = tr @ [Print (emoji_runner @ '' Running tests without building (fast mode)...'')]
      in case subprocess_run e True fast_cmd tr0 of
           (Inr _, tr1) \<Rightarrow> (Inr 0, tr1)
         | (Inl (CalledProcessError rc), tr1) \<Rightarrow> (Inr rc, tr1)
         | (Inl x, tr1) \<Rightarrow> (Inl x, tr1))"

definition watch_cmd :: cmd where
  "watch_cmd = [''dotnet'', ''watch'', ''test'', ''--verbosity'', ''normal'']"

definition run_watch_tests :: "env \<Rightarrow> trace \<Rightarrow> (exn + int) \<times> trace" where
  "run_watch_tests e tr =
     (let tr0 = tr @
            [Print (emoji_eyes @ '' Running tests in watch mode...''),
             Print ''   Press Ctrl+C to stop watching'']
      in case subprocess_run e True watch_cmd tr0 of
           (Inr _, tr1) \<Rightarrow> (Inr 0, tr1)
         | (Inl (CalledProcessError rc), tr1) \<Rightarrow> (Inr rc, tr1)
         | (Inl KeyboardInterrupt, tr1) \<Rightarrow>
             (Inr 0, tr1 @ [Print (CHR 0x0A # emoji_stop_sign @ '' Watch mode stopped by user'')])
         | (Inl x, tr1) \<Rightarrow> (Inl x, tr1))"

definition print_summary :: "int \<Rightarrow> trace \<Rightarrow> trace" where
  "print_summary exit_code tr =
     tr @ [Print [], Print (replicate 47 CHR ''='')]
        @ (if exit_code = 0
           then [Print (emoji_party @ '' ALL TESTS PASSED! '' @ emoji_check),
                 Print ''   Wikipedia MCP Server is ready for deployment'']
           else [Print (emoji_cross @ '' SOME TESTS FAILED!''),
                 Print ''   Please check the test output above for details'',
                 Print (''   Exit code: '' @ str_int exit_code)])
        @ [Print (replicate 47 CHR ''='')]"

subsection \<open>The command line\<close>

text \<open>
  \<open>main\<close> declares eight \<open>store_true\<close> options with \<open>add_argument\<close>, in no
  mutually exclusive group, and calls \<open>parse_args\<close>. The parser is the argparse library's
  (here as in CPython 3.11). It works in two parts, and so does the model. The first part,
  \<open>parser_steps\<close> below, reads the words of the command line and finds what the parser
  does for them, step by step: it takes the action of a declared option, it takes the
  action of the help option that argparse adds by itself, it sets a word aside as
  unrecognised, or it raises a usage error. The second part, \<open>parse_words\<close>, carries
  these steps out.
\<close>

datatype flag = Flag_all | Flag_coverage | Flag_unit | Flag_service
  | Flag_integration | Flag_stdio | Flag_fast | Flag_watch

datatype cli_arg = Option flag | Help_option | Unrecognized string | Rejected string

record args =
  opt_all :: bool
  opt_coverage :: bool
  opt_unit :: bool
  opt_service :: bool
  opt_integration :: bool
  opt_stdio :: bool
  opt_fast :: bool
  opt_watch :: bool

definition default_args :: args where
  "default_args = \<lparr>opt_all = False, opt_coverage = False, opt_unit = False, opt_service = False,
     opt_integration = False, opt_stdio = False, opt_fast = False, opt_watch = False\<rparr>"

fun store_true :: "flag \<Rightarrow> args \<Rightarrow> args" where
  "store_true Flag_all a = a\<lparr>opt_all := True\<rparr>"
| "store_true Flag_coverage a = a\<lparr>opt_coverage := True\<rparr>"
| "store_true Flag_unit a = a\<lparr>opt_unit := True\<rparr>"
| "store_true Flag_service a = a\<lparr>opt_service := True\<rparr>"
| "store_true Flag_integration a = a\<lparr>opt_integration := True\<rparr>"
| "store_true Flag_stdio a = a\<lparr>opt_stdio := True\<rparr>"
| "store_true Flag_fast a = a\<lparr>opt_fast := True\<rparr>"
| "store_true Flag_watch a = a\<lparr>opt_watch := True\<rparr>"

text \<open>
  The steps are carried out from left to right. The help action prints the help and
  exits with status 0 at once; a raised error is a usage error, exit status 2, at once;
  unrecognised words are collected and are a usage error, exit status 2, once all steps
  have been taken.
\<close>

fun parse_words :: "args \<Rightarrow> string list \<Rightarrow> cli_arg list \<Rightarrow> trace \<Rightarrow> (exn + args) \<times> trace" where
  "parse_words a extras [] tr =
     (if extras = [] then (Inr a, tr) else (Inl (SystemExit 2), tr @ [Argparse_error]))"
| "parse_words a extras (Option f # ws) tr = parse_words (store_true f a) extras ws tr"
| "parse_words a extras (Help_option # ws) tr = (Inl (SystemExit 0), tr @ [Argparse_help])"
| "parse_words a extras (Unrecognized w # ws) tr = parse_words a (extras @ [w]) ws tr"
| "parse_words a extras (Rejected w # ws) tr = (Inl (SystemExit 2), tr @ [Argparse_error])"

definition parse_args :: "cli_arg list \<Rightarrow> trace \<Rightarrow> (exn + args) \<times> trace" where
  "parse_args argv tr = parse_words default_args [] argv tr"

text \<open>
  The option strings of the parser with their actions, in the order of registration:
  \<open>-h\<close> and \<open>--help\<close> by \<open>ArgumentParser\<close> itself, then those of the eight
  \<open>add_argument\<close> calls of \<open>main\<close>.
\<close>

datatype action = Help_action | Store_true flag

definition option_string_actions :: "(string \<times> action) list" where
  "option_string_actions =
     [(''-h'', Help_action), (''--help'', Help_action),
      (''--all'', Store_true Flag_all), (''-a'', Store_true Flag_all),
      (''--coverage'', Store_true Flag_coverage), (''-c'', Store_true Flag_coverage),
      (''--unit'', Store_true Flag_unit), (''-u'', Store_true Flag_unit),
      (''--service'', Store_true Flag_service), (''-s'', Store_true Flag_service),
      (''--integration'', Store_true Flag_integration), (''-i'', Store_true Flag_integration),
      (''--stdio'', Store_true Flag_stdio),
      (''--fast'', Store_true Flag_fast), (''-f'', Store_true Flag_fast),
      (''--watch'', Store_true Flag_watch), (''-w'', Store_true Flag_watch)]"

text \<open>\<open>s.partition('=')\<close>: the text before the first \<open>=\<close> and, if there is one, the text after it.\<close>

fun partition_eq :: "string \<Rightarrow> string \<times> string option" where
  "partition_eq [] = ([], None)"
| "partition_eq (c # cs) =
     (if c = CHR ''='' then ([], Some cs)
      else (case partition_eq cs of (b, r) \<Rightarrow> (c # b, r)))"

text \<open>
  An option tuple of argparse: the action, the option string, the separator and the
  explicit argument.
\<close>

type_synonym option_tuple = "action \<times> string \<times> string option \<times> string option"

text \<open>
  \<open>_get_option_tuples\<close>: the declared options that a word not itself declared can stand
  for. A word with two dashes stands for every option string that its part before
  \<open>=\<close> begins; a word with one dash stands for the option string made of its first two
  characters, the rest being an explicit argument.
\<close>

definition get_option_tuples :: "string \<Rightarrow> option_tuple list" where
  "get_option_tuples s =
     (case s of
        c1 # c2 # rest \<Rightarrow>
          if c2 = CHR ''-''
          then (case partition_eq s of
                  (option_prefix, explicit_arg) \<Rightarrow>
                    map (\<lambda>(os, a). (a, os, map_option (\<lambda>x. ''='') explicit_arg, explicit_arg))
                      (filter (\<lambda>(os, a). startswith os option_prefix) option_string_actions))
          else concat (map (\<lambda>(os, a).
                 if os = [c1, c2] then [(a, os, Some [], Some rest)]
                 else if startswith os s then [(a, os, None, None)]
                 else []) option_string_actions)
      | _ \<Rightarrow> [])"

text \<open>
  \<open>_parse_optional\<close>: what the parser takes a word for. A word for which it finds no
  option is, for argparse, a positional argument or an option unknown to this parser;
  the parser of \<open>main\<close> has no positional arguments, so either way the word ends among the
  unrecognised ones, and the model keeps the two as one case.
\<close>

datatype parsed = No_option | Found option_tuple | Ambiguous

definition parse_optional :: "string \<Rightarrow> parsed" where
  "parse_optional s =
     (if s = [] then No_option
      else if hd s \<noteq> CHR ''-'' then No_option
      else (case map_of option_string_actions s of
              Some a \<Rightarrow> Found (a, s, None, None)
            | None \<Rightarrow>
                if length s = 1 then No_option
                else (case partition_eq s of
                        (option_string, explicit_arg) \<Rightarrow>
                          (case (explicit_arg, map_of option_string_actions option_string) of
                             (Some x, Some a) \<Rightarrow> Found (a, option_string, Some ''='', Some x)
                           | _ \<Rightarrow>
                               (case get_option_tuples s of
                                  [] \<Rightarrow> No_option
                                | [t] \<Rightarrow> Found t
                                | _ \<Rightarrow> Ambiguous)))))"

text \<open>
  The first pass of \<open>_parse_known_args\<close> goes through all the words before any action is
  taken: after a word \<open>--\<close> every word is an argument, and an ambiguous abbreviation is a
  usage error there and then.
\<close>

datatype pattern = Arg_string string | Opt_string string option_tuple

fun first_pass :: "string list \<Rightarrow> string + pattern list" where
  "first_pass [] = Inr []"
| "first_pass (w # ws) =
     (if w = ''--'' then Inr (map Arg_string (w # ws))
      else (case parse_optional w of
              Ambiguous \<Rightarrow> Inl w
            | No_option \<Rightarrow>
                (case first_pass ws of Inl x \<Rightarrow> Inl x | Inr ps \<Rightarrow> Inr (Arg_string w # ps))
            | Found t \<Rightarrow>
                (case first_pass ws of Inl x \<Rightarrow> Inl x | Inr ps \<Rightarrow> Inr (Opt_string w t # ps))))"

definition taken :: "action \<Rightarrow> cli_arg" where
  "taken a = (case a of Help_action \<Rightarrow> Help_option | Store_true f \<Rightarrow> Option f)"

text \<open>
  \<open>consume_optional\<close> for an option with an explicit argument, none of the options
  taking one. After an option with two dashes, after a separator \<open>=\<close>, or when it is empty
  or begins with a dash, the explicit argument is a usage error. After an option with one
  dash it is read as further one-letter options, \<open>-au\<close> as \<open>-a -u\<close>: the actions
  found are queued (\<open>q\<close>) and taken when the word has been read, so that an error in the
  word comes before all of them; a letter that is no option sets the rest of the word
  aside as unrecognised.
\<close>

fun consume_explicit :: "string \<Rightarrow> cli_arg list \<Rightarrow> action \<Rightarrow> bool \<Rightarrow> bool \<Rightarrow> string \<Rightarrow> cli_arg list" where
  "consume_explicit w q a single_dash sep [] = [Rejected w]"
| "consume_explicit w q a single_dash sep (c # r) =
     (if \<not> single_dash then [Rejected w]
      else if sep \<or> c = CHR ''-'' then [Rejected w]
      else (case map_of option_string_actions [CHR ''-'', c] of
              None \<Rightarrow> q @ [taken a, Unrecognized (CHR ''-'' # c # r)]
            | Some a' \<Rightarrow>
                (case r of
                   [] \<Rightarrow> q @ [taken a, taken a']
                 | d # r' \<Rightarrow>
                     if d = CHR ''='' then consume_explicit w (q @ [taken a]) a' True True r'
                     else consume_explicit w (q @ [taken a]) a' True False (d # r'))))"

definition word_steps :: "pattern \<Rightarrow> cli_arg list" where
  "word_steps p =
     (case p of
        Arg_string w \<Rightarrow> [Unrecognized w]
      | Opt_string w (a, option_string, sep, explicit_arg) \<Rightarrow>
          (case explicit_arg of
             None \<Rightarrow> [taken a]
           | Some x \<Rightarrow>
               consume_explicit w [] a (take 2 option_string \<noteq> ''--'') (sep = Some ''='') x))"

definition parser_steps :: "string list \<Rightarrow> cli_arg list" where
  "parser_steps argv =
     (case first_pass argv of
        Inl w \<Rightarrow> [Rejected w]
      | Inr ps \<Rightarrow> concat (map word_steps ps))"

text \<open>
  \<open>main\<close> of \<open>run-tests.py\<close>, given the steps of the parser. It ends in \<open>sys.exit\<close> on
  every path that no exception cuts short, so its result is always an exception.
\<close>

definition main :: "env \<Rightarrow> cli_arg list \<Rightarrow> trace \<Rightarrow> (exn + unit) \<times> trace" where
  "main e argv tr =
     (case parse_args argv (tr @ [Chdir_script_dir]) of
        (Inl x, tr1) \<Rightarrow> (Inl x, tr1)
      | (Inr args, tr1) \<Rightarrow>
          (case check_dotnet e (print_banner tr1) of
             (Inl x, tr2) \<Rightarrow> (Inl x, tr2)
           | (Inr ok, tr2) \<Rightarrow>
               if \<not> ok then (Inl (SystemExit 1), tr2)
               else
                 (case (if opt_coverage args then run_tests_with_coverage e tr2
                        else if opt_unit args then run_specific_tests e ''unit'' tr2
                        else if opt_service args then run_specific_tests e ''service'' tr2
                        else if opt_integration args then run_specific_tests e ''integration'' tr2
                        else if opt_stdio args then run_specific_tests e ''stdio'' tr2
                        else if opt_fast args then run_fast_tests e tr2
                        else if opt_watch args then run_watch_tests e tr2
                        else run_all_tests e tr2) of
                    (Inl x, tr3) \<Rightarrow> (Inl x, tr3)
                  | (Inr exit_code, tr3) \<Rightarrow>
                      (Inl (SystemExit exit_code), print_summary exit_code tr3))))"


text \<open>
  How the interpreter ends the process, as its parent sees it on POSIX: a script that
  runs off its end exits with status 0; \<open>sys.exit(n)\<close> exits with the low eight bits of
  \<open>n\<close>, that is \<open>n mod 256\<close> (for every \<open>n\<close> that fits a C \<open>long\<close>, as all sums of
  return codes do); any other exception ends it with a traceback (and not with status 0).
\<close>

datatype process_end = Exit int | Traceback exn

fun script_end :: "(exn + unit) \<Rightarrow> process_end" where
  "script_end (Inr _) = Exit 0"
| "script_end (Inl (SystemExit n)) = Exit (n mod 256)"
| "script_end (Inl x) = Traceback x"

section \<open>The server starter, \<open>start-server.py\<close>\<close>

text \<open>
  The functions \<open>print_banner\<close>, \<open>check_dotnet\<close> and \<open>main\<close> of this script carry the
  prefix \<open>srv\<close>, their names being taken by the test runner's.
\<close>

definition emoji_rocket :: string where
  "emoji_rocket = [CHR 0xF0, CHR 0x9F, CHR 0x9A, CHR 0x80]"
definition emoji_broom :: string where
  "emoji_broom = [CHR 0xF0, CHR 0x9F, CHR 0xA7, CHR 0xB9]"
definition emoji_hammer :: string where
  "emoji_hammer = [CHR 0xF0, CHR 0x9F, CHR 0x94, CHR 0xA8]"
definition emoji_globe :: string where
  "emoji_globe = [CHR 0xF0, CHR 0x9F, CHR 0x8C, CHR 0x90]"
definition emoji_memo :: string where
  "emoji_memo = [CHR 0xF0, CHR 0x9F, CHR 0x93, CHR 0x9D]"
definition emoji_stop_button :: string where
  "emoji_stop_button = [CHR 0xE2, CHR 0x8F, CHR 0xB9, CHR 0xEF, CHR 0xB8, CHR 0x8F]"
definition emoji_hospital :: string where
  "emoji_hospital = [CHR 0xF0, CHR 0x9F, CHR 0x8F, CHR 0xA5]"
definition emoji_info :: string where
  "emoji_info = [CHR 0xE2, CHR 0x84, CHR 0xB9, CHR 0xEF, CHR 0xB8, CHR 0x8F]"
definition emoji_clipboard :: string where
  "emoji_clipboard = [CHR 0xF0, CHR 0x9F, CHR 0x93, CHR 0x8B]"
definition emoji_link :: string where
  "emoji_link = [CHR 0xF0, CHR 0x9F, CHR 0x94, CHR 0x97]"

definition srv_print_banner :: "trace \<Rightarrow> trace" where
  "srv_print_banner tr = tr @
     [Print (emoji_rocket @ '' Starting Wikipedia MCP Server for Local Testing''),
      Print (replicate 50 CHR ''='')]"

definition srv_check_dotnet :: "env \<Rightarrow> trace \<Rightarrow> (exn + bool) \<times> trace" where
  "srv_check_dotnet e tr =
     (case subprocess_run e True dotnet_version_cmd tr of
        (Inr (rc, out), tr1) \<Rightarrow>
          (let version = strip out;
               tr2 = tr1 @ [Print (emoji_check @ '' .NET SDK found: '' @ version)];
               tr3 = (if \<not> startswith version ''8.''
                      then tr2 @
                        [Print (emoji_warning @ ''  Warning: Using .NET '' @ version @ '' instead of .NET 8''),
                         Print ''   global.json should pin to .NET 8.0.406'']
                      else tr2)
           in (Inr True, tr3))
      | (Inl KeyboardInterrupt, tr1) \<Rightarrow> (Inl KeyboardInterrupt, tr1)
      | (Inl (SystemExit n), tr1) \<Rightarrow> (Inl (SystemExit n), tr1)
      | (Inl _, tr1) \<Rightarrow>
          (Inr False, tr1 @
             [Print (emoji_cross @ '' .NET SDK not found. Please install .NET 8.0 SDK''),
              Print ''   Download from: https://dotnet.microsoft.com/download'']))"

definition project_file :: string where
  "project_file = ''src/WikipediaMcpServer/WikipediaMcpServer.csproj''"

definition check_project :: "env \<Rightarrow> trace \<Rightarrow> bool \<times> trace" where
  "check_project e tr =
     (let tr0 = tr @ [Path_exists project_file]
      in if \<not> path_exists e project_file
         then (False, tr0 @
                 [Print (emoji_cross @ '' Project file not found. Make sure you'' @ [CHR 0x27]
                           @ ''re in the correct directory.'')])
         else (True, tr0))"

definition taskkill_cmd :: cmd where
  "taskkill_cmd = [''taskkill'', ''/f'', ''/im'', ''dotnet.exe'']"

definition pkill_cmd :: cmd where
  "pkill_cmd = [''pkill'', ''-f'', ''dotnet.*WikipediaMcpServer'']"

text \<open>
  \<open>kill_existing_processes\<close> runs the command with \<open>check=False\<close> inside a \<open>try\<close> whose
  bare \<open>except\<close> passes: whatever \<open>subprocess.run\<close> returns or raises is dropped.
\<close>

definition kill_existing_processes :: "env \<Rightarrow> trace \<Rightarrow> (exn + unit) \<times> trace" where
  "kill_existing_processes e tr =
     (let tr0 = tr @ [Print (emoji_broom @ '' Cleaning up any existing server instances...'')];
          tr1 = (if system e = ''Windows''
                 then (case subprocess_run e False taskkill_cmd tr0 of
                         (Inr _, t) \<Rightarrow> t
                       | (Inl _, t) \<Rightarrow> t)
                 else (case subprocess_run e False pkill_cmd tr0 of
                         (Inr _, t) \<Rightarrow> t
                       | (Inl _, t) \<Rightarrow> t))
      in (Inr (), tr1 @ [Sleep 2]))"

definition srv_build_cmd :: cmd where
  "srv_build_cmd = [''dotnet'', ''build'', project_file]"

definition build_project :: "env \<Rightarrow> trace \<Rightarrow> (exn + bool) \<times> trace" where
  "build_project e tr =
     (let tr0 = tr @ [Print (emoji_hammer @ '' Building the project...'')]
      in case subprocess_run e True srv_build_cmd tr0 of
           (Inr _, tr1) \<Rightarrow> (Inr True, tr1 @ [Print (emoji_check @ '' Build successful!'')])
         | (Inl (CalledProcessError rc), tr1) \<Rightarrow>
             (Inr False, tr1 @
                [Print (emoji_cross @ '' Build failed. Please check the build errors above.'')])
         | (Inl x, tr1) \<Rightarrow> (Inl x, tr1))"

definition print_server_info :: "trace \<Rightarrow> trace" where
  "print_server_info tr = tr @
     [Print (CHR 0x0A # emoji_globe @ '' Starting server on http://localhost:5070''),
      Print (emoji_memo @ '' Server logs will be displayed below...''),
      Print (emoji_stop_button @ ''  Press Ctrl+C to stop the server''),
      Print (CHR 0x0A # ''Available endpoints:''),
      Print (''  '' @ emoji_hospital @ '' Health: http://localhost:5070/health''),
      Print (''  '' @ emoji_info @ ''  Info:   http://localhost:5070/info''),
      Print (''  '' @ emoji_clipboard @ '' Swagger: http://localhost:5070/swagger''),
      Print (''  '' @ emoji_link @ '' MCP JSON-RPC: http://localhost:5070/mcp/rpc''),
      Print (''  '' @ emoji_link @ '' MCP SDK: http://localhost:5070/mcp''),
      Print (CHR 0x0A # ''Ready for Postman testing! '' @ emoji_rocket),
      Print ''Use WikipediaMcpServer-MCP-JsonRPC-Collection.json for comprehensive testing'',
      Print []]"

definition server_cmd :: cmd where
  "server_cmd = [''dotnet'', ''run'', ''--project'', project_file]"

text \<open>
  \<open>str(e)\<close> of a \<open>CalledProcessError\<close>, as the \<open>subprocess\<close> module writes it: the command
  as the \<open>str\<close> of its list, then the exit status, or the signal that ended the child.
  \<open>repr_str\<close> is \<open>repr\<close> for text of printable ASCII characters without quotes and
  backslashes, as the words of the command are.
\<close>

definition repr_str :: "string \<Rightarrow> string" where
  "repr_str s = [CHR 0x27] @ s @ [CHR 0x27]"

fun join_comma :: "string list \<Rightarrow> string" where
  "join_comma [] = []"
| "join_comma [s] = s"
| "join_comma (s # ss) = s @ '', '' @ join_comma ss"

definition str_list :: "string list \<Rightarrow> string" where
  "str_list xs = ''['' @ join_comma (map repr_str xs) @ '']''"

definition str_CalledProcessError :: "env \<Rightarrow> cmd \<Rightarrow> int \<Rightarrow> string" where
  "str_CalledProcessError e c rc =
     (if rc < 0
      then (case signal_name e (nat (- rc)) of
              Some name \<Rightarrow>
                ''Command '' @ [CHR 0x27] @ str_list c @ [CHR 0x27] @ '' died with <Signals.''
                  @ name @ '': '' @ str_int (- rc) @ ''>.''
            | None \<Rightarrow>
                ''Command '' @ [CHR 0x27] @ str_list c @ [CHR 0x27]
                  @ '' died with unknown signal '' @ str_int (- rc) @ ''.'')
      else ''Command '' @ [CHR 0x27] @ str_list c @ [CHR 0x27]
             @ '' returned non-zero exit status '' @ str_int rc @ ''.'')"

text \<open>
  \<open>start_server\<close> catches the interrupt and the \<open>CalledProcessError\<close>, prints a line for
  either and returns; it has no return value.
\<close>

definition start_server :: "env \<Rightarrow> trace \<Rightarrow> (exn + unit) \<times> trace" where
  "start_server e tr =
     (case subprocess_run e True server_cmd tr of
        (Inr _, tr1) \<Rightarrow> (Inr (), tr1)
      | (Inl KeyboardInterrupt, tr1) \<Rightarrow>
          (Inr (), tr1 @ [Print (CHR 0x0A # emoji_stop_sign @ '' Server stopped by user'')])
      | (Inl (CalledProcessError rc), tr1) \<Rightarrow>
          (Inr (), tr1 @
             [Print (emoji_cross @ '' Server failed to start: ''
                       @ str_CalledProcessError e server_cmd rc)])
      | (Inl x, tr1) \<Rightarrow> (Inl x, tr1))"

definition srv_main :: "env \<Rightarrow> trace \<Rightarrow> (exn + unit) \<times> trace" where
  "srv_main e tr =
     (case srv_check_dotnet e (srv_print_banner (tr @ [Chdir_script_dir])) of
        (Inl x, tr1) \<Rightarrow> (Inl x, tr1)
      | (Inr ok, tr1) \<Rightarrow>
          if \<not> ok then (Inl (SystemExit 1), tr1)
          else
            (case check_project e tr1 of
               (present, tr2) \<Rightarrow>
                 if \<not> present then (Inl (SystemExit 1), tr2)
                 else
                   (case kill_existing_processes e tr2 of
                      (Inl x, tr3) \<Rightarrow> (Inl x, tr3)
                    | (Inr _, tr3) \<Rightarrow>
                        (case build_project e tr3 of
                           (Inl x, tr4) \<Rightarrow> (Inl x, tr4)
                         | (Inr built, tr4) \<Rightarrow>
                             if \<not> built then (Inl (SystemExit 1), tr4)
                             else start_server e (print_server_info tr4)))))"

section \<open>Vocabulary of the properties\<close>

definition project_path :: "string \<times> string \<times> string \<Rightarrow> string" where
  "project_path p = fst (snd p)"

text \<open>The invocation that \<open>run_test_project\<close> makes for a registered project.\<close>

definition unit_cmd :: "string \<times> string \<times> string \<Rightarrow> cmd" where
  "unit_cmd p = test_cmd (project_path p)"

text \<open>
  \<open>exits e h cs rs\<close>: after the invocations \<open>h\<close>, the commands \<open>cs\<close>, run one after the
  other, each run to their end, with the return codes \<open>rs\<close>.
\<close>

fun exits :: "env \<Rightarrow> cmd list \<Rightarrow> cmd list \<Rightarrow> int list \<Rightarrow> bool" where
  "exits e h [] [] = True"
| "exits e h (c # cs) (r # rs) =
     ((case runner e h c of Completed r' _ \<Rightarrow> r' = r | _ \<Rightarrow> False) \<and> exits e (h @ [c]) cs rs)"
| "exits e h _ _ = False"

definition succeeds :: "env \<Rightarrow> cmd list \<Rightarrow> cmd \<Rightarrow> bool" where
  "succeeds e h c = (case runner e h c of Completed rc _ \<Rightarrow> rc = 0 | _ \<Rightarrow> False)"

text \<open>The termination command that \<open>kill_existing_processes\<close> picks on this host.\<close>

definition kill_cmd :: "env \<Rightarrow> cmd" where
  "kill_cmd e = (if system e = ''Windows'' then taskkill_cmd else pkill_cmd)"

text \<open>
  \<open>startup_ok e h\<close>: after the invocations \<open>h\<close>, every step of \<open>srv_main\<close> before the
  server is started passes: the SDK answers, the project file exists, the build succeeds.
\<close>

definition startup_ok :: "env \<Rightarrow> cmd list \<Rightarrow> bool" where
  "startup_ok e h =
     (succeeds e h dotnet_version_cmd \<and> path_exists e project_file \<and>
      succeeds e (h @ [dotnet_version_cmd, kill_cmd e]) srv_build_cmd)"



text \<open>The priority among the mode flags, highest first; \<open>--all\<close> is not among them.\<close>

definition mode_priority :: "flag list" where
  "mode_priority = [Flag_coverage, Flag_unit, Flag_service, Flag_integration, Flag_stdio,
     Flag_fast, Flag_watch]"

text \<open>The mode that belongs to a flag; without a flag, all test projects.\<close>

fun run_mode :: "env \<Rightarrow> flag option \<Rightarrow> trace \<Rightarrow> (exn + int) \<times> trace" where
  "run_mode e (Some Flag_coverage) = run_tests_with_coverage e"
| "run_mode e (Some Flag_unit) = run_specific_tests e ''unit''"
| "run_mode e (Some Flag_service) = run_specific_tests e ''service''"
| "run_mode e (Some Flag_integration) = run_specific_tests e ''integration''"
| "run_mode e (Some Flag_stdio) = run_specific_tests e ''stdio''"
| "run_mode e (Some Flag_fast) = run_fast_tests e"
| "run_mode e (Some Flag_watch) = run_watch_tests e"
| "run_mode e _ = run_all_tests e"

text \<open>
  The steps of the server starter, and the event by which each shows in a trace: the
  version query, the look for the project file, the termination command, the build, the
  first line of the endpoint listing, the start of the server.
\<close>

datatype step = CheckPrerequisites | CheckProjectExists | KillStaleInstances | Build
  | PrintEndpoints | RunBlocking

definition lifecycle :: "step list" where
  "lifecycle = [CheckPrerequisites, CheckProjectExists, KillStaleInstances, Build,
     PrintEndpoints, RunBlocking]"

definition endpoints_header :: string where
  "endpoints_header = CHR 0x0A # emoji_globe @ '' Starting server on http://localhost:5070''"

fun step_of :: "env \<Rightarrow> event \<Rightarrow> step option" where
  "step_of e (Run c) =
     (if c = dotnet_version_cmd then Some CheckPrerequisites
      else if c = kill_cmd e then Some KillStaleInstances
      else if c = srv_build_cmd then Some Build
      else if c = server_cmd then Some RunBlocking
      else None)"
| "step_of e (Path_exists p) = Some CheckProjectExists"
| "step_of e (Print s) = (if s = endpoints_header then Some PrintEndpoints else None)"
| "step_of e _ = None"

fun steps :: "env \<Rightarrow> trace \<Rightarrow> step list" where
  "steps e [] = []"
| "steps e (ev # evs) = (case step_of e ev of Some s \<Rightarrow> s # steps e evs | None \<Rightarrow> steps e evs)"

subsection \<open>Example environments\<close>

text \<open>
  A host on which the listed commands end as listed, whenever they are run, and every
  other command succeeds with no output; it names the signals 2, 9 and 15.
\<close>

definition scripted :: "(cmd \<times> proc_outcome) list \<Rightarrow> bool \<Rightarrow> string \<Rightarrow> env" where
  "scripted script project_present os =
     \<lparr>runner = (\<lambda>h c. case map_of script c of Some r \<Rightarrow> r | None \<Rightarrow> Completed 0 []),
      path_exists = (\<lambda>p. project_present),
      system = os,
      signal_name = map_of [(2, ''SIGINT''), (9, ''SIGKILL''), (15, ''SIGTERM'')]\<rparr>"

text \<open>The unit tests are killed by signal 9, the service tests exit with status 9.\<close>

definition signal_env :: env where
  "signal_env = scripted
     [(unit_cmd unit_project, Completed (- 9) []),
      (unit_cmd service_project, Completed 9 [])] True ''Linux''"

text \<open>The unit tests and the stdio tests exit with status 128.\<close>

definition status_128_env :: env where
  "status_128_env = scripted
     [(unit_cmd unit_project, Completed 128 []),
      (unit_cmd stdio_project, Completed 128 [])] True ''Linux''"

text \<open>The service tests fail with status 1.\<close>

definition service_fails_env :: env where
  "service_fails_env = scripted [(unit_cmd service_project, Completed 1 [])] True ''Linux''"

text \<open>The build fails with status 1.\<close>

definition build_fails_env :: env where
  "build_fails_env = scripted [(build_cmd, Completed 1 [])] True ''Linux''"

text \<open>Every command succeeds; the SDK reports version 8.0.406.\<close>

definition healthy_env :: env where
  "healthy_env = scripted [(dotnet_version_cmd, Completed 0 (''8.0.406'' @ [CHR 0x0A]))] True ''Linux''"

text \<open>The project file is missing.\<close>

definition no_project_env :: env where
  "no_project_env = scripted [] False ''Linux''"

text \<open>The server process exits by itself with status 3.\<close>

definition server_exits_env :: env where
  "server_exits_env = scripted [(server_cmd, Completed 3 [])] True ''Linux''"

text \<open>The operator interrupts the server, or the watcher.\<close>

definition interrupt_env :: env where
  "interrupt_env = scripted [(server_cmd, Interrupted), (watch_cmd, Interrupted)] True ''Linux''"

text \<open>A Windows host on which \<open>taskkill\<close> is not installed.\<close>

definition windows_env :: env where
  "windows_env = scripted [(taskkill_cmd, Not_found)] True ''Windows''"

section \<open>Facts about traces and the shared steps\<close>

lemma spawned_append: "spawned (a @ b) = spawned a @ spawned b"
  by (induction a rule: spawned.induct) simp_all

lemma printed_append: "printed (a @ b) = printed a @ printed b"
  by (induction a rule: printed.induct) simp_all

lemma scripted_sel:
  "runner (scripted s p os) h c = (case map_of s c of Some r \<Rightarrow> r | None \<Rightarrow> Completed 0 [])"
  "path_exists (scripted s p os) f = p"
  "system (scripted s p os) = os"
  "signal_name (scripted s p os) = map_of [(2, ''SIGINT''), (9, ''SIGKILL''), (15, ''SIGTERM'')]"
  by (simp_all add: scripted_def)

lemmas cmd_defs = unit_cmd_def project_path_def test_projects_def unit_project_def
  service_project_def integration_project_def stdio_project_def test_cmd_def build_cmd_def
  dotnet_version_cmd_def coverage_cmd_def fast_cmd_def watch_cmd_def

lemma run_test_project_exits:
  assumes "runner e (spawned tr) (test_cmd path) = Completed r out"
  shows "\<exists>tr'. run_test_project e n path d tr = (Inr r, tr') \<and>
           spawned tr' = spawned tr @ [test_cmd path]"
  using assms
  by (cases "r = 0") (simp_all add: run_test_project_def subprocess_run_def spawned_append Let_def)

lemma run_projects_exits:
  "exits e (spawned tr) (map unit_cmd ps) rcs \<Longrightarrow>
   \<exists>tr'. run_projects e t ps tr = (Inr (t + sum_list rcs), tr') \<and>
         spawned tr' = spawned tr @ map unit_cmd ps"
proof (induction ps arbitrary: tr t rcs)
  case Nil
  then show ?case by (cases rcs) simp_all
next
  case (Cons p ps)
  obtain n path d where p: "p = (n, path, d)" by (cases p) auto
  from Cons.prems obtain r rs where rcs: "rcs = r # rs" by (cases rcs) auto
  have up: "unit_cmd p = test_cmd path"
    by (simp add: p unit_cmd_def project_path_def)
  from Cons.prems rcs
  have hd: "(case runner e (spawned tr) (unit_cmd p) of Completed r' _ \<Rightarrow> r' = r | _ \<Rightarrow> False)"
    and rest: "exits e (spawned tr @ [unit_cmd p]) (map unit_cmd ps) rs"
    by simp_all
  from hd obtain out where run: "runner e (spawned tr) (test_cmd path) = Completed r out"
    unfolding up by (auto split: proc_outcome.splits)
  from run_test_project_exits [OF run, of n d] obtain tr1 where
    one: "run_test_project e n path d tr = (Inr r, tr1)"
    and sp: "spawned tr1 = spawned tr @ [test_cmd path]" by blast
  from rest sp up have "exits e (spawned tr1) (map unit_cmd ps) rs" by simp
  from Cons.IH [OF this, of "t + r"] obtain tr' where
    "run_projects e (t + r) ps tr1 = (Inr (t + r + sum_list rs), tr')"
    "spawned tr' = spawned tr1 @ map unit_cmd ps" by blast
  with one sp p rcs up show ?case
    by (simp add: add.assoc)
qed

lemma sum_list_nonneg_zero:
  "\<forall>r\<in>set rs. (0::int) \<le> r \<Longrightarrow> sum_list rs = 0 \<longleftrightarrow> (\<forall>r\<in>set rs. r = 0)"
proof (induction rs)
  case Nil show ?case by simp
next
  case (Cons a rs)
  then have "0 \<le> a" "0 \<le> sum_list rs" by (auto intro: sum_list_nonneg)
  with Cons show ?case by auto
qed

lemma build_solution_ok:
  assumes "runner e (spawned tr) build_cmd = Completed 0 out"
  shows "build_solution e tr = (Inr True, tr @
           [Print (emoji_construction @ ''  Building solution first...''), Run build_cmd,
            Print (emoji_check @ '' Build successful!''), Print []])"
  using assms by (simp add: build_solution_def subprocess_run_def spawned_append)

lemma run_all_tests_exits:
  assumes build: "runner e (spawned tr) build_cmd = Completed 0 out"
    and units: "exits e (spawned tr @ [build_cmd]) (map unit_cmd test_projects) rcs"
  shows "\<exists>tr'. run_all_tests e tr = (Inr (sum_list rcs), tr') \<and>
           spawned tr' = spawned tr @ build_cmd # map unit_cmd test_projects"
proof -
  let ?tr0 = "tr @ [Print (emoji_direct_hit @ '' Running ALL test projects...''), Print []]"
  let ?tr1 = "?tr0 @ [Print (emoji_construction @ ''  Building solution first...''), Run build_cmd,
     Print (emoji_check @ '' Build successful!''), Print []]"
  have b: "build_solution e ?tr0 = (Inr True, ?tr1)"
    using build by (intro build_solution_ok) (simp add: spawned_append)
  have "exits e (spawned ?tr1) (map unit_cmd test_projects) rcs"
    using units by (simp add: spawned_append)
  from run_projects_exits [OF this, of 0] obtain tr' where
    "run_projects e 0 test_projects ?tr1 = (Inr (sum_list rcs), tr')"
    "spawned tr' = spawned ?tr1 @ map unit_cmd test_projects" by auto
  with b show ?thesis
    by (simp add: run_all_tests_def spawned_append)
qed

subsection \<open>Prerequisites, the command line and the dispatch of \<open>main\<close>\<close>

lemma spawned_print_banner: "spawned (print_banner tr) = spawned tr"
  by (simp add: print_banner_def spawned_append)

lemma spawned_print_summary: "spawned (print_summary c tr) = spawned tr"
  by (simp add: print_summary_def spawned_append)

lemma check_dotnet_ok:
  assumes "succeeds e (spawned tr) dotnet_version_cmd"
  shows "\<exists>tr'. check_dotnet e tr = (Inr True, tr') \<and> spawned tr' = spawned tr @ [dotnet_version_cmd]"
  using assms
  by (auto simp: check_dotnet_def subprocess_run_def succeeds_def spawned_append Let_def
      split: proc_outcome.splits)

lemma check_dotnet_spawned:
  "spawned (snd (check_dotnet e tr)) = spawned tr @ [dotnet_version_cmd]"
  by (auto simp: check_dotnet_def subprocess_run_def spawned_append Let_def
      split: proc_outcome.splits)

lemma run_test_project_spawned:
  "spawned (snd (run_test_project e n path d tr)) = spawned tr @ [test_cmd path]"
  by (auto simp: run_test_project_def subprocess_run_def spawned_append Let_def
      split: proc_outcome.splits)

lemma run_all_tests_build_fails:
  assumes "runner e (spawned tr) build_cmd = Completed rc out" "rc \<noteq> 0"
  shows "run_all_tests e tr = (Inr 1, tr @
           [Print (emoji_direct_hit @ '' Running ALL test projects...''), Print [],
            Print (emoji_construction @ ''  Building solution first...''), Run build_cmd,
            Print (emoji_cross @ '' Build failed. Cannot run tests.'')])"
  using assms
  by (simp add: run_all_tests_def build_solution_def subprocess_run_def spawned_append)

lemma parse_words_options:
  "parse_words a [] (map Option fs) tr = (Inr (fold store_true fs a), tr)"
  by (induction fs arbitrary: a) simp_all

lemma fold_store_true:
  "opt_coverage (fold store_true fs a) = (opt_coverage a \<or> Flag_coverage \<in> set fs)"
  "opt_unit (fold store_true fs a) = (opt_unit a \<or> Flag_unit \<in> set fs)"
  "opt_service (fold store_true fs a) = (opt_service a \<or> Flag_service \<in> set fs)"
  "opt_integration (fold store_true fs a) = (opt_integration a \<or> Flag_integration \<in> set fs)"
  "opt_stdio (fold store_true fs a) = (opt_stdio a \<or> Flag_stdio \<in> set fs)"
  "opt_fast (fold store_true fs a) = (opt_fast a \<or> Flag_fast \<in> set fs)"
  "opt_watch (fold store_true fs a) = (opt_watch a \<or> Flag_watch \<in> set fs)"
proof (induction fs arbitrary: a)
  case Nil
  { case 1 show ?case by simp next
    case 2 show ?case by simp next
    case 3 show ?case by simp next
    case 4 show ?case by simp next
    case 5 show ?case by simp next
    case 6 show ?case by simp next
    case 7 show ?case by simp }
next
  case (Cons f fs)
  { case 1 show ?case by (cases f) (auto simp: Cons.IH) next
    case 2 show ?case by (cases f) (auto simp: Cons.IH) next
    case 3 show ?case by (cases f) (auto simp: Cons.IH) next
    case 4 show ?case by (cases f) (auto simp: Cons.IH) next
    case 5 show ?case by (cases f) (auto simp: Cons.IH) next
    case 6 show ?case by (cases f) (auto simp: Cons.IH) next
    case 7 show ?case by (cases f) (auto simp: Cons.IH) }
qed

lemma main_dispatch:
  "main e (map Option fs) tr =
     (case check_dotnet e (print_banner (tr @ [Chdir_script_dir])) of
        (Inl x, t) \<Rightarrow> (Inl x, t)
      | (Inr ok, t) \<Rightarrow>
          if \<not> ok then (Inl (SystemExit 1), t)
          else (case run_mode e (find (\<lambda>p. p \<in> set fs) mode_priority) t of
                  (Inl x, t') \<Rightarrow> (Inl x, t')
                | (Inr c, t') \<Rightarrow> (Inl (SystemExit c), print_summary c t')))"
  by (simp add: main_def parse_args_def parse_words_options fold_store_true default_args_def
      mode_priority_def split: prod.splits sum.splits)

section \<open>The mode that runs all test projects\<close>

lemma all_mode_commands:
  "dotnet_version_cmd # build_cmd # map unit_cmd test_projects =
     [[''dotnet'', ''--version''],
      [''dotnet'', ''build'', ''--configuration'', ''Release''],
      [''dotnet'', ''test'',
       ''tests/WikipediaMcpServer.UnitTests/WikipediaMcpServer.UnitTests.csproj'',
       ''--verbosity'', ''normal'', ''--logger'', ''console;verbosity=normal'',
       ''--configuration'', ''Release'', ''--no-build'', ''--collect:XPlat Code Coverage''],
      [''dotnet'', ''test'',
       ''tests/WikipediaMcpServer.ServiceTests/WikipediaMcpServer.ServiceTests.csproj'',
       ''--verbosity'', ''normal'', ''--logger'', ''console;verbosity=normal'',
       ''--configuration'', ''Release'', ''--no-build'', ''--collect:XPlat Code Coverage''],
      [''dotnet'', ''test'',
       ''tests/WikipediaMcpServer.IntegrationTests/WikipediaMcpServer.IntegrationTests.csproj'',
       ''--verbosity'', ''normal'', ''--logger'', ''console;verbosity=normal'',
       ''--configuration'', ''Release'', ''--no-build'', ''--collect:XPlat Code Coverage''],
      [''dotnet'', ''test'',
       ''tests/WikipediaMcpServer.StdioTests/WikipediaMcpServer.StdioTests.csproj'',
       ''--verbosity'', ''normal'', ''--logger'', ''console;verbosity=normal'',
       ''--configuration'', ''Release'', ''--no-build'', ''--collect:XPlat Code Coverage'']]"
  by (simp add: cmd_defs)

lemma find_all_mode:
  assumes "set fs \<subseteq> {Flag_all}"
  shows "find (\<lambda>p. p \<in> set fs) mode_priority = None"
  using assms by (auto simp: mode_priority_def)

lemma main_all_exits:
  assumes flags: "set fs \<subseteq> {Flag_all}"
    and check: "succeeds e (spawned tr) dotnet_version_cmd"
    and build: "succeeds e (spawned tr @ [dotnet_version_cmd]) build_cmd"
    and units: "exits e (spawned tr @ [dotnet_version_cmd, build_cmd]) (map unit_cmd test_projects) rcs"
  shows "fst (main e (map Option fs) tr) = Inl (SystemExit (sum_list rcs))"
    and "spawned (snd (main e (map Option fs) tr)) =
           spawned tr @ dotnet_version_cmd # build_cmd # map unit_cmd test_projects"
proof -
  let ?t0 = "print_banner (tr @ [Chdir_script_dir])"
  from check have "succeeds e (spawned ?t0) dotnet_version_cmd"
    by (simp add: spawned_print_banner spawned_append)
  from check_dotnet_ok [OF this] obtain t1 where
    c: "check_dotnet e ?t0 = (Inr True, t1)"
    and s1: "spawned t1 = spawned tr @ [dotnet_version_cmd]"
    by (auto simp: spawned_print_banner spawned_append)
  from build s1 obtain out where b: "runner e (spawned t1) build_cmd = Completed 0 out"
    by (auto simp: succeeds_def split: proc_outcome.splits)
  from units s1 have u: "exits e (spawned t1 @ [build_cmd]) (map unit_cmd test_projects) rcs"
    by simp
  from run_all_tests_exits [OF b u] obtain t2 where
    r: "run_all_tests e t1 = (Inr (sum_list rcs), t2)"
    and s2: "spawned t2 = spawned t1 @ build_cmd # map unit_cmd test_projects"
    by (elim exE conjE)
  have m: "main e (map Option fs) tr = (Inl (SystemExit (sum_list rcs)), print_summary (sum_list rcs) t2)"
    by (simp add: main_dispatch c find_all_mode [OF flags] r)
  show "fst (main e (map Option fs) tr) = Inl (SystemExit (sum_list rcs))"
    by (simp add: m)
  show "spawned (snd (main e (map Option fs) tr)) =
           spawned tr @ dotnet_version_cmd # build_cmd # map unit_cmd test_projects"
    by (simp add: m spawned_print_summary s2 s1)
qed

text \<open>
  C1 (as amended). A run of the script in the mode of all test projects (no flag, or
  only \<open>--all\<close>), in which the prerequisite check and the build succeed and each of the
  four test invocations runs to its end: the four registered projects are invoked in the
  order of the registry (unit, service, integration, stdio), whatever their return codes
  are; the value handed to \<open>sys.exit\<close> is the sum of the four return codes, and the exit
  status of the process is that sum modulo 256. A non-zero exit status means that some
  project failed. When no return code is negative and the sum is below 256, the exit
  status is non-zero if and only if some project failed; in particular it is zero when
  all succeed.
\<close>

theorem run_all_tests_sum:
  assumes flags: "set fs \<subseteq> {Flag_all}"
    and check: "succeeds e (spawned tr) dotnet_version_cmd"
    and build: "succeeds e (spawned tr @ [dotnet_version_cmd]) build_cmd"
    and units: "exits e (spawned tr @ [dotnet_version_cmd, build_cmd]) (map unit_cmd test_projects) rcs"
  shows "fst (main e (map Option fs) tr) = Inl (SystemExit (sum_list rcs)) \<and>
         script_end (fst (main e (map Option fs) tr)) = Exit (sum_list rcs mod 256) \<and>
         spawned (snd (main e (map Option fs) tr)) = spawned tr @
           [[''dotnet'', ''--version''],
            [''dotnet'', ''build'', ''--configuration'', ''Release''],
            [''dotnet'', ''test'',
             ''tests/WikipediaMcpServer.UnitTests/WikipediaMcpServer.UnitTests.csproj'',
             ''--verbosity'', ''normal'', ''--logger'', ''console;verbosity=normal'',
             ''--configuration'', ''Release'', ''--no-build'', ''--collect:XPlat Code Coverage''],
            [''dotnet'', ''test'',
             ''tests/WikipediaMcpServer.ServiceTests/WikipediaMcpServer.ServiceTests.csproj'',
             ''--verbosity'', ''normal'', ''--logger'', ''console;verbosity=normal'',
             ''--configuration'', ''Release'', ''--no-build'', ''--collect:XPlat Code Coverage''],
            [''dotnet'', ''test'',
             ''tests/WikipediaMcpServer.IntegrationTests/WikipediaMcpServer.IntegrationTests.csproj'',
             ''--verbosity'', ''normal'', ''--logger'', ''console;verbosity=normal'',
             ''--configuration'', ''Release'', ''--no-build'', ''--collect:XPlat Code Coverage''],
            [''dotnet'', ''test'',
             ''tests/WikipediaMcpServer.StdioTests/WikipediaMcpServer.StdioTests.csproj'',
             ''--verbosity'', ''normal'', ''--logger'', ''console;verbosity=normal'',
             ''--configuration'', ''Release'', ''--no-build'', ''--collect:XPlat Code Coverage'']] \<and>
         (script_end (fst (main e (map Option fs) tr)) \<noteq> Exit 0 \<longrightarrow> (\<exists>r\<in>set rcs. r \<noteq> 0)) \<and>
         ((\<forall>r\<in>set rcs. 0 \<le> r) \<and> sum_list rcs < 256 \<longrightarrow>
            (script_end (fst (main e (map Option fs) tr)) \<noteq> Exit 0 \<longleftrightarrow> (\<exists>r\<in>set rcs. r \<noteq> 0)))"
proof -
  note m = main_all_exits [OF flags check build units]
  have e: "script_end (fst (main e (map Option fs) tr)) = Exit (sum_list rcs mod 256)"
    by (simp add: m(1))
  have zero: "sum_list rcs = 0" if "\<forall>r\<in>set rcs. r = 0"
    using that by (induction rcs) auto
  have some: "\<exists>r\<in>set rcs. r \<noteq> 0" if "script_end (fst (main e (map Option fs) tr)) \<noteq> Exit 0"
  proof (rule ccontr)
    assume "\<not> (\<exists>r\<in>set rcs. r \<noteq> 0)"
    then have "sum_list rcs = 0" by (intro zero) blast
    with that e show False by simp
  qed
  have iff: "script_end (fst (main e (map Option fs) tr)) \<noteq> Exit 0 \<longleftrightarrow> (\<exists>r\<in>set rcs. r \<noteq> 0)"
    if h: "(\<forall>r\<in>set rcs. 0 \<le> r) \<and> sum_list rcs < 256"
  proof -
    from h have nn: "\<forall>r\<in>set rcs. 0 \<le> r" and lt: "sum_list rcs < 256" by simp_all
    from nn have "0 \<le> sum_list rcs" by (simp add: sum_list_nonneg)
    with lt have "sum_list rcs mod 256 = sum_list rcs" by simp
    with e sum_list_nonneg_zero [OF nn] show ?thesis by auto
  qed
  have sp: "spawned (snd (main e (map Option fs) tr)) = spawned tr @
           [[''dotnet'', ''--version''],
            [''dotnet'', ''build'', ''--configuration'', ''Release''],
            [''dotnet'', ''test'',
             ''tests/WikipediaMcpServer.UnitTests/WikipediaMcpServer.UnitTests.csproj'',
             ''--verbosity'', ''normal'', ''--logger'', ''console;verbosity=normal'',
             ''--configuration'', ''Release'', ''--no-build'', ''--collect:XPlat Code Coverage''],
            [''dotnet'', ''test'',
             ''tests/WikipediaMcpServer.ServiceTests/WikipediaMcpServer.ServiceTests.csproj'',
             ''--verbosity'', ''normal'', ''--logger'', ''console;verbosity=normal'',
             ''--configuration'', ''Release'', ''--no-build'', ''--collect:XPlat Code Coverage''],
            [''dotnet'', ''test'',
             ''tests/WikipediaMcpServer.IntegrationTests/WikipediaMcpServer.IntegrationTests.csproj'',
             ''--verbosity'', ''normal'', ''--logger'', ''console;verbosity=normal'',
             ''--configuration'', ''Release'', ''--no-build'', ''--collect:XPlat Code Coverage''],
            [''dotnet'', ''test'',
             ''tests/WikipediaMcpServer.StdioTests/WikipediaMcpServer.StdioTests.csproj'',
             ''--verbosity'', ''normal'', ''--logger'', ''console;verbosity=normal'',
             ''--configuration'', ''Release'', ''--no-build'', ''--collect:XPlat Code Coverage'']]"
    by (simp only: m(2) all_mode_commands)
  from m(1) e sp some iff show ?thesis by blast
qed


theorem run_all_tests_sum_witness:
  "set [] \<subseteq> {Flag_all} \<and>
   succeeds service_fails_env (spawned []) dotnet_version_cmd \<and>
   succeeds service_fails_env (spawned [] @ [dotnet_version_cmd]) build_cmd \<and>
   exits service_fails_env (spawned [] @ [dotnet_version_cmd, build_cmd])
     (map unit_cmd test_projects) [0, 1, 0, 0] \<and>
   list_all (\<lambda>r. 0 \<le> r) [0, 1, 0, 0 :: int] \<and> sum_list [0, 1, 0, 0 :: int] < 256 \<and>
   fst (main service_fails_env [] []) = Inl (SystemExit 1) \<and>
   script_end (fst (main service_fails_env [] [])) = Exit 1 \<and>
   spawned (snd (main service_fails_env [] [])) =
     [[''dotnet'', ''--version''],
      [''dotnet'', ''build'', ''--configuration'', ''Release''],
      [''dotnet'', ''test'',
       ''tests/WikipediaMcpServer.UnitTests/WikipediaMcpServer.UnitTests.csproj'',
       ''--verbosity'', ''normal'', ''--logger'', ''console;verbosity=normal'',
       ''--configuration'', ''Release'', ''--no-build'', ''--collect:XPlat Code Coverage''],
      [''dotnet'', ''test'',
       ''tests/WikipediaMcpServer.ServiceTests/WikipediaMcpServer.ServiceTests.csproj'',
       ''--verbosity'', ''normal'', ''--logger'', ''console;verbosity=normal'',
       ''--configuration'', ''Release'', ''--no-build'', ''--collect:XPlat Code Coverage''],
      [''dotnet'', ''test'',
       ''tests/WikipediaMcpServer.IntegrationTests/WikipediaMcpServer.IntegrationTests.csproj'',
       ''--verbosity'', ''normal'', ''--logger'', ''console;verbosity=normal'',
       ''--configuration'', ''Release'', ''--no-build'', ''--collect:XPlat Code Coverage''],
      [''dotnet'', ''test'',
       ''tests/WikipediaMcpServer.StdioTests/WikipediaMcpServer.StdioTests.csproj'',
       ''--verbosity'', ''normal'', ''--logger'', ''console;verbosity=normal'',
       ''--configuration'', ''Release'', ''--no-build'', ''--collect:XPlat Code Coverage'']]"
proof -
  have f: "set [] \<subseteq> {Flag_all}" by simp
  have c: "succeeds service_fails_env (spawned []) dotnet_version_cmd"
    by (simp add: succeeds_def service_fails_env_def scripted_sel cmd_defs)
  have b: "succeeds service_fails_env (spawned [] @ [dotnet_version_cmd]) build_cmd"
    by (simp add: succeeds_def service_fails_env_def scripted_sel cmd_defs)
  have u: "exits service_fails_env (spawned [] @ [dotnet_version_cmd, build_cmd])
      (map unit_cmd test_projects) [0, 1, 0, 0]"
    by (simp add: service_fails_env_def scripted_sel cmd_defs)
  have n: "list_all (\<lambda>r. 0 \<le> r) [0, 1, 0, 0 :: int] \<and> sum_list [0, 1, 0, 0 :: int] < 256"
    by simp
  note t = run_all_tests_sum [OF f c b u]
  have 1: "fst (main service_fails_env [] []) = Inl (SystemExit 1)"
    using t [THEN conjunct1] by simp
  have 2: "script_end (fst (main service_fails_env [] [])) = Exit 1"
    using t [THEN conjunct2, THEN conjunct1] by simp
  have 3: "spawned (snd (main service_fails_env [] [])) =
     [[''dotnet'', ''--version''],
      [''dotnet'', ''build'', ''--configuration'', ''Release''],
      [''dotnet'', ''test'',
       ''tests/WikipediaMcpServer.UnitTests/WikipediaMcpServer.UnitTests.csproj'',
       ''--verbosity'', ''normal'', ''--logger'', ''console;verbosity=normal'',
       ''--configuration'', ''Release'', ''--no-build'', ''--collect:XPlat Code Coverage''],
      [''dotnet'', ''test'',
       ''tests/WikipediaMcpServer.ServiceTests/WikipediaMcpServer.ServiceTests.csproj'',
       ''--verbosity'', ''normal'', ''--logger'', ''console;verbosity=normal'',
       ''--configuration'', ''Release'', ''--no-build'', ''--collect:XPlat Code Coverage''],
      [''dotnet'', ''test'',
       ''tests/WikipediaMcpServer.IntegrationTests/WikipediaMcpServer.IntegrationTests.csproj'',
       ''--verbosity'', ''normal'', ''--logger'', ''console;verbosity=normal'',
       ''--configuration'', ''Release'', ''--no-build'', ''--collect:XPlat Code Coverage''],
      [''dotnet'', ''test'',
       ''tests/WikipediaMcpServer.StdioTests/WikipediaMcpServer.StdioTests.csproj'',
       ''--verbosity'', ''normal'', ''--logger'', ''console;verbosity=normal'',
       ''--configuration'', ''Release'', ''--no-build'', ''--collect:XPlat Code Coverage'']]"
    using t [THEN conjunct2, THEN conjunct2, THEN conjunct1] by simp
  show ?thesis
    by (intro conjI) (rule f c b u n [THEN conjunct1] n [THEN conjunct2] 1 2 3)+
qed

text \<open>
  The claim as first stated has the exit code non-zero whenever a project fails. The sum
  does not keep that promise. Return codes can cancel: \<open>subprocess\<close> reports a child
  killed by signal 9 as \<open>-9\<close>, and with another project exiting with status 9 the sum is
  0. And the exit status keeps the low eight bits only: two projects exiting with status
  128 add up to 256, and the process exits with status 0.
\<close>

theorem run_all_tests_cancel_counterexample:
  "succeeds signal_env (spawned []) dotnet_version_cmd \<and>
   succeeds signal_env (spawned [] @ [dotnet_version_cmd]) build_cmd \<and>
   exits signal_env (spawned [] @ [dotnet_version_cmd, build_cmd])
     (map unit_cmd test_projects) [- 9, 9, 0, 0] \<and>
   fst (main signal_env [] []) = Inl (SystemExit 0) \<and>
   script_end (fst (main signal_env [] [])) = Exit 0 \<and>
   succeeds status_128_env (spawned []) dotnet_version_cmd \<and>
   succeeds status_128_env (spawned [] @ [dotnet_version_cmd]) build_cmd \<and>
   exits status_128_env (spawned [] @ [dotnet_version_cmd, build_cmd])
     (map unit_cmd test_projects) [128, 0, 0, 128] \<and>
   fst (main status_128_env [] []) = Inl (SystemExit 256) \<and>
   script_end (fst (main status_128_env [] [])) = Exit 0"
proof -
  have f: "set [] \<subseteq> {Flag_all}" by simp
  have c1: "succeeds signal_env (spawned []) dotnet_version_cmd"
    by (simp add: succeeds_def signal_env_def scripted_sel cmd_defs)
  have b1: "succeeds signal_env (spawned [] @ [dotnet_version_cmd]) build_cmd"
    by (simp add: succeeds_def signal_env_def scripted_sel cmd_defs)
  have u1: "exits signal_env (spawned [] @ [dotnet_version_cmd, build_cmd])
      (map unit_cmd test_projects) [- 9, 9, 0, 0]"
    by (simp add: signal_env_def scripted_sel cmd_defs)
  have c2: "succeeds status_128_env (spawned []) dotnet_version_cmd"
    by (simp add: succeeds_def status_128_env_def scripted_sel cmd_defs)
  have b2: "succeeds status_128_env (spawned [] @ [dotnet_version_cmd]) build_cmd"
    by (simp add: succeeds_def status_128_env_def scripted_sel cmd_defs)
  have u2: "exits status_128_env (spawned [] @ [dotnet_version_cmd, build_cmd])
      (map unit_cmd test_projects) [128, 0, 0, 128]"
    by (simp add: status_128_env_def scripted_sel cmd_defs)
  have m1: "fst (main signal_env [] []) = Inl (SystemExit 0)"
    using main_all_exits(1) [OF f c1 b1 u1] by simp
  have m2: "fst (main status_128_env [] []) = Inl (SystemExit 256)"
    using main_all_exits(1) [OF f c2 b2 u2] by simp
  have e1: "script_end (fst (main signal_env [] [])) = Exit 0"
    by (simp add: m1)
  have e2: "script_end (fst (main status_128_env [] [])) = Exit 0"
    by (simp add: m2)
  show ?thesis
    by (intro conjI) (rule c1 b1 u1 m1 e1 c2 b2 u2 m2 e2)+
qed

text \<open>
  C2. When the build of \<open>run_all_tests\<close> does not succeed, the build is the only
  invocation made: no test project is run. A build that ends with a non-zero return code
  makes \<open>run_all_tests\<close> return 1, and a run of the script without flags then exits with
  status 1; a build that cannot be started or is interrupted leaves as its exception.
\<close>

theorem run_all_tests_build_failure:
  "(\<not> succeeds e (spawned tr) build_cmd \<longrightarrow>
      spawned (snd (run_all_tests e tr)) = spawned tr @ [build_cmd] \<and>
      fst (run_all_tests e tr) =
        (case runner e (spawned tr) build_cmd of
           Completed rc out \<Rightarrow> Inr 1
         | Not_found \<Rightarrow> Inl FileNotFoundError
         | Interrupted \<Rightarrow> Inl KeyboardInterrupt)) \<and>
   (succeeds e (spawned tr) dotnet_version_cmd \<and>
    (case runner e (spawned tr @ [dotnet_version_cmd]) build_cmd of
       Completed rc out \<Rightarrow> rc \<noteq> 0 | _ \<Rightarrow> False) \<longrightarrow>
      script_end (fst (main e [] tr)) = Exit 1 \<and>
      spawned (snd (main e [] tr)) = spawned tr @ [dotnet_version_cmd, build_cmd])"
proof -
  have part1: "spawned (snd (run_all_tests e tr)) = spawned tr @ [build_cmd] \<and>
      fst (run_all_tests e tr) =
        (case runner e (spawned tr) build_cmd of
           Completed rc out \<Rightarrow> Inr 1
         | Not_found \<Rightarrow> Inl FileNotFoundError
         | Interrupted \<Rightarrow> Inl KeyboardInterrupt)"
    if "\<not> succeeds e (spawned tr) build_cmd"
    using that
    by (auto simp: succeeds_def run_all_tests_def build_solution_def subprocess_run_def
        spawned_append split: proc_outcome.splits)
  have part2: "script_end (fst (main e [] tr)) = Exit 1 \<and>
      spawned (snd (main e [] tr)) = spawned tr @ [dotnet_version_cmd, build_cmd]"
    if a: "succeeds e (spawned tr) dotnet_version_cmd \<and>
      (case runner e (spawned tr @ [dotnet_version_cmd]) build_cmd of
         Completed rc out \<Rightarrow> rc \<noteq> 0 | _ \<Rightarrow> False)"
  proof -
    let ?t0 = "print_banner (tr @ [Chdir_script_dir])"
    from a have "succeeds e (spawned ?t0) dotnet_version_cmd"
      by (simp add: spawned_print_banner spawned_append)
    from check_dotnet_ok [OF this] obtain t1 where
      c: "check_dotnet e ?t0 = (Inr True, t1)"
      and s1: "spawned t1 = spawned tr @ [dotnet_version_cmd]"
      by (auto simp: spawned_print_banner spawned_append)
    from a s1 obtain rc out where
      b: "runner e (spawned t1) build_cmd = Completed rc out" "rc \<noteq> 0"
      by (auto split: proc_outcome.splits)
    have m: "main e [] tr = (Inl (SystemExit 1), print_summary 1 (t1 @
             [Print (emoji_direct_hit @ '' Running ALL test projects...''), Print [],
              Print (emoji_construction @ ''  Building solution first...''), Run build_cmd,
              Print (emoji_cross @ '' Build failed. Cannot run tests.'')]))"
      using main_dispatch [of e "[]" tr] c run_all_tests_build_fails [OF b]
      by (simp add: mode_priority_def)
    show ?thesis
      by (simp add: m spawned_print_summary spawned_append s1)
  qed
  from part1 part2 show ?thesis by blast
qed

theorem run_all_tests_build_failure_witness:
  "\<not> succeeds build_fails_env (spawned []) build_cmd \<and>
   succeeds build_fails_env (spawned []) dotnet_version_cmd \<and>
   spawned (snd (run_all_tests build_fails_env [])) = [build_cmd] \<and>
   fst (run_all_tests build_fails_env []) = Inr 1 \<and>
   script_end (fst (main build_fails_env [] [])) = Exit 1 \<and>
   spawned (snd (main build_fails_env [] [])) = [dotnet_version_cmd, build_cmd]"
  using run_all_tests_build_failure [of build_fails_env "[]"]
  by (simp add: succeeds_def build_fails_env_def scripted_sel build_cmd_def dotnet_version_cmd_def)

section \<open>Single scopes\<close>

lemma test_configs_known:
  "test_configs ''unit'' = Some unit_project"
  "test_configs ''service'' = Some service_project"
  "test_configs ''integration'' = Some integration_project"
  "test_configs ''stdio'' = Some stdio_project"
  by (simp_all add: test_configs_def)

lemma projects_registered:
  "unit_project \<in> set test_projects"
  "service_project \<in> set test_projects"
  "integration_project \<in> set test_projects"
  "stdio_project \<in> set test_projects"
  by (simp_all add: test_projects_def)

lemma test_configs_unknown:
  assumes "s \<noteq> ''unit''" "s \<noteq> ''service''" "s \<noteq> ''integration''" "s \<noteq> ''stdio''"
  shows "test_configs s = None"
  unfolding test_configs_def map_of.simps fun_upd_apply fst_conv snd_conv
  using assms by simp

lemma run_specific_tests_known:
  assumes "test_configs s = Some p"
  shows "spawned (snd (run_specific_tests e s tr)) = spawned tr @ [unit_cmd p]"
proof -
  obtain n path d where npd: "p = (n, path, d)" by (cases p) auto
  show ?thesis
    by (simp add: run_specific_tests_def assms npd run_test_project_spawned unit_cmd_def
        project_path_def)
qed

lemma unit_cmd_literals:
  "unit_cmd unit_project =
     [''dotnet'', ''test'',
      ''tests/WikipediaMcpServer.UnitTests/WikipediaMcpServer.UnitTests.csproj'',
      ''--verbosity'', ''normal'', ''--logger'', ''console;verbosity=normal'',
      ''--configuration'', ''Release'', ''--no-build'', ''--collect:XPlat Code Coverage'']"
  "unit_cmd service_project =
     [''dotnet'', ''test'',
      ''tests/WikipediaMcpServer.ServiceTests/WikipediaMcpServer.ServiceTests.csproj'',
      ''--verbosity'', ''normal'', ''--logger'', ''console;verbosity=normal'',
      ''--configuration'', ''Release'', ''--no-build'', ''--collect:XPlat Code Coverage'']"
  "unit_cmd integration_project =
     [''dotnet'', ''test'',
      ''tests/WikipediaMcpServer.IntegrationTests/WikipediaMcpServer.IntegrationTests.csproj'',
      ''--verbosity'', ''normal'', ''--logger'', ''console;verbosity=normal'',
      ''--configuration'', ''Release'', ''--no-build'', ''--collect:XPlat Code Coverage'']"
  "unit_cmd stdio_project =
     [''dotnet'', ''test'',
      ''tests/WikipediaMcpServer.StdioTests/WikipediaMcpServer.StdioTests.csproj'',
      ''--verbosity'', ''normal'', ''--logger'', ''console;verbosity=normal'',
      ''--configuration'', ''Release'', ''--no-build'', ''--collect:XPlat Code Coverage'']"
  by (simp_all add: cmd_defs)

text \<open>
  C3. \<open>run_specific_tests\<close> runs a test project exactly for the four categories
  \<open>unit\<close>, \<open>service\<close>, \<open>integration\<close> and \<open>stdio\<close>: for each of them it makes the one
  invocation \<open>dotnet test\<close> of the project registered under that name, with the fixed
  options of the runner. For every other category it runs nothing, prints that the
  category is unknown together with the four valid ones, and returns 1.
\<close>

theorem run_specific_tests_scope:
  "(spawned (snd (run_specific_tests e s tr)) \<noteq> spawned tr \<longleftrightarrow>
      s \<in> {''unit'', ''service'', ''integration'', ''stdio''}) \<and>
   spawned (snd (run_specific_tests e ''unit'' tr)) = spawned tr @
     [[''dotnet'', ''test'',
       ''tests/WikipediaMcpServer.UnitTests/WikipediaMcpServer.UnitTests.csproj'',
       ''--verbosity'', ''normal'', ''--logger'', ''console;verbosity=normal'',
       ''--configuration'', ''Release'', ''--no-build'', ''--collect:XPlat Code Coverage'']] \<and>
   spawned (snd (run_specific_tests e ''service'' tr)) = spawned tr @
     [[''dotnet'', ''test'',
       ''tests/WikipediaMcpServer.ServiceTests/WikipediaMcpServer.ServiceTests.csproj'',
       ''--verbosity'', ''normal'', ''--logger'', ''console;verbosity=normal'',
       ''--configuration'', ''Release'', ''--no-build'', ''--collect:XPlat Code Coverage'']] \<and>
   spawned (snd (run_specific_tests e ''integration'' tr)) = spawned tr @
     [[''dotnet'', ''test'',
       ''tests/WikipediaMcpServer.IntegrationTests/WikipediaMcpServer.IntegrationTests.csproj'',
       ''--verbosity'', ''normal'', ''--logger'', ''console;verbosity=normal'',
       ''--configuration'', ''Release'', ''--no-build'', ''--collect:XPlat Code Coverage'']] \<and>
   spawned (snd (run_specific_tests e ''stdio'' tr)) = spawned tr @
     [[''dotnet'', ''test'',
       ''tests/WikipediaMcpServer.StdioTests/WikipediaMcpServer.StdioTests.csproj'',
       ''--verbosity'', ''normal'', ''--logger'', ''console;verbosity=normal'',
       ''--configuration'', ''Release'', ''--no-build'', ''--collect:XPlat Code Coverage'']] \<and>
   (s \<notin> {''unit'', ''service'', ''integration'', ''stdio''} \<longrightarrow>
      run_specific_tests e s tr = (Inr 1, tr @
        [Print ([CHR 0xE2, CHR 0x9D, CHR 0x8C] @ '' Unknown test category: '' @ s),
         Print ''   Available categories: unit, service, integration, stdio'']))"
proof -
  have mem: "s \<in> {''unit'', ''service'', ''integration'', ''stdio''} \<longleftrightarrow>
      (s = ''unit'' \<or> s = ''service'' \<or> s = ''integration'' \<or> s = ''stdio'')"
    by simp
  have k1: "spawned (snd (run_specific_tests e ''unit'' tr)) = spawned tr @ [unit_cmd unit_project]"
    by (rule run_specific_tests_known [OF test_configs_known(1)])
  have k2: "spawned (snd (run_specific_tests e ''service'' tr)) = spawned tr @ [unit_cmd service_project]"
    by (rule run_specific_tests_known [OF test_configs_known(2)])
  have k3: "spawned (snd (run_specific_tests e ''integration'' tr)) = spawned tr @ [unit_cmd integration_project]"
    by (rule run_specific_tests_known [OF test_configs_known(3)])
  have k4: "spawned (snd (run_specific_tests e ''stdio'' tr)) = spawned tr @ [unit_cmd stdio_project]"
    by (rule run_specific_tests_known [OF test_configs_known(4)])
  have unknown: "run_specific_tests e s tr = (Inr 1, tr @
        [Print ([CHR 0xE2, CHR 0x9D, CHR 0x8C] @ '' Unknown test category: '' @ s),
         Print ''   Available categories: unit, service, integration, stdio''])"
    if "s \<notin> {''unit'', ''service'', ''integration'', ''stdio''}"
  proof -
    from that have "s \<noteq> ''unit''" "s \<noteq> ''service''" "s \<noteq> ''integration''" "s \<noteq> ''stdio''"
      by simp_all
    then have "test_configs s = None" by (rule test_configs_unknown)
    then show ?thesis by (simp add: run_specific_tests_def emoji_cross_def)
  qed
  have runs: "spawned (snd (run_specific_tests e s tr)) \<noteq> spawned tr \<longleftrightarrow> s \<in> {''unit'', ''service'', ''integration'', ''stdio''}"
  proof (cases "s \<in> {''unit'', ''service'', ''integration'', ''stdio''}")
    case True
    then consider "s = ''unit''" | "s = ''service''" | "s = ''integration''" | "s = ''stdio''"
      unfolding mem by (elim disjE)
    then have "spawned (snd (run_specific_tests e s tr)) \<noteq> spawned tr"
    proof cases
      case 1 then show ?thesis by (simp only: k1) simp
    next
      case 2 then show ?thesis by (simp only: k2) simp
    next
      case 3 then show ?thesis by (simp only: k3) simp
    next
      case 4 then show ?thesis by (simp only: k4) simp
    qed
    with True show ?thesis by (simp only: simp_thms)
  next
    case False
    from unknown [OF False] have "spawned (snd (run_specific_tests e s tr)) = spawned tr"
      by (simp add: spawned_append)
    with False show ?thesis by (simp only: simp_thms)
  qed
  show ?thesis
  proof (intro conjI)
    show "spawned (snd (run_specific_tests e s tr)) \<noteq> spawned tr \<longleftrightarrow> s \<in> {''unit'', ''service'', ''integration'', ''stdio''}"
      by (rule runs)
    show "s \<notin> {''unit'', ''service'', ''integration'', ''stdio''} \<longrightarrow>
      run_specific_tests e s tr = (Inr 1, tr @
        [Print ([CHR 0xE2, CHR 0x9D, CHR 0x8C] @ '' Unknown test category: '' @ s),
         Print ''   Available categories: unit, service, integration, stdio''])"
      by (rule impI) (rule unknown)
  qed (simp_all only: k1 k2 k3 k4 unit_cmd_literals)
qed

theorem run_specific_tests_scope_witness:
  "''stdio'' \<in> {''unit'', ''service'', ''integration'', ''stdio''} \<and>
   ''protocol'' \<notin> {''unit'', ''service'', ''integration'', ''stdio''} \<and>
   spawned (snd (run_specific_tests healthy_env ''stdio'' [])) \<noteq> spawned [] \<and>
   spawned (snd (run_specific_tests healthy_env ''protocol'' [])) = spawned [] \<and>
   run_specific_tests healthy_env ''protocol'' [] = (Inr 1,
     [Print ([CHR 0xE2, CHR 0x9D, CHR 0x8C] @ '' Unknown test category: protocol''),
      Print ''   Available categories: unit, service, integration, stdio''])"
proof -
  have a: "''stdio'' \<in> {''unit'', ''service'', ''integration'', ''stdio''}"
    by simp
  have b: "''protocol'' \<notin> {''unit'', ''service'', ''integration'', ''stdio''}"
    by simp
  note known = run_specific_tests_scope [of healthy_env "''stdio''" "[]"]
  note unknown = run_specific_tests_scope [of healthy_env "''protocol''" "[]"]
  have 1: "spawned (snd (run_specific_tests healthy_env ''stdio'' [])) \<noteq> spawned []"
    by (rule known [THEN conjunct1, THEN iffD2, OF a])
  have 3: "run_specific_tests healthy_env ''protocol'' [] = (Inr 1, [] @
        [Print ([CHR 0xE2, CHR 0x9D, CHR 0x8C] @ '' Unknown test category: '' @ ''protocol''),
         Print ''   Available categories: unit, service, integration, stdio''])"
    by (rule unknown [THEN conjunct2, THEN conjunct2, THEN conjunct2, THEN conjunct2,
          THEN conjunct2, THEN mp, OF b])
  have 2: "spawned (snd (run_specific_tests healthy_env ''protocol'' [])) = spawned []"
    by (simp add: 3 spawned_append)
  have 4: "run_specific_tests healthy_env ''protocol'' [] = (Inr 1,
     [Print ([CHR 0xE2, CHR 0x9D, CHR 0x8C] @ '' Unknown test category: protocol''),
      Print ''   Available categories: unit, service, integration, stdio''])"
    using 3 by simp
  show ?thesis
    by (intro conjI) (rule a b 1 2 4)+
qed

section \<open>Fast mode\<close>

text \<open>
  C6. \<open>run_fast_tests\<close> makes one invocation, \<open>dotnet test --no-build\<close>, whatever its
  outcome. A run of the script with \<open>--fast\<close> makes the version query of the prerequisite
  check and, when that passes, this invocation, and nothing else; neither is a build
  command.
\<close>

theorem run_fast_tests_no_build:
  "spawned (snd (run_fast_tests e tr)) = spawned tr @ [fast_cmd] \<and>
   spawned (snd (main e [Option Flag_fast] tr)) \<in>
     {spawned tr @ [dotnet_version_cmd], spawned tr @ [dotnet_version_cmd, fast_cmd]} \<and>
   fast_cmd = [''dotnet'', ''test'', ''--no-build'', ''--verbosity'', ''normal''] \<and>
   build_cmd \<notin> {dotnet_version_cmd, fast_cmd} \<and>
   ''build'' \<notin> set dotnet_version_cmd \<union> set fast_cmd"
proof -
  have f: "spawned (snd (run_fast_tests e t)) = spawned t @ [fast_cmd]" for t
    by (auto simp: run_fast_tests_def subprocess_run_def spawned_append Let_def
        split: proc_outcome.splits)
  let ?t0 = "print_banner (tr @ [Chdir_script_dir])"
  obtain r t1 where c: "check_dotnet e ?t0 = (r, t1)" by (cases "check_dotnet e ?t0")
  with check_dotnet_spawned [of e ?t0]
  have s1: "spawned t1 = spawned tr @ [dotnet_version_cmd]"
    by (simp add: spawned_print_banner spawned_append)
  obtain r2 t2 where rf: "run_fast_tests e t1 = (r2, t2)" by (cases "run_fast_tests e t1")
  with f [of t1] s1 have s2: "spawned t2 = spawned tr @ [dotnet_version_cmd, fast_cmd]"
    by simp
  have "spawned (snd (main e [Option Flag_fast] tr)) \<in>
     {spawned tr @ [dotnet_version_cmd], spawned tr @ [dotnet_version_cmd, fast_cmd]}"
    using main_dispatch [of e "[Flag_fast]" tr] c rf s1 s2
    by (auto simp: mode_priority_def spawned_print_summary split: sum.splits)
  with f [of tr] show ?thesis
    by (simp add: fast_cmd_def build_cmd_def dotnet_version_cmd_def)
qed

section \<open>Watch mode\<close>

text \<open>
  C7. When the operator interrupts the watcher, \<open>run_watch_tests\<close> prints that watch
  mode was stopped by the user and returns 0; a run of the script with \<open>--watch\<close> whose
  prerequisite check passed then exits with status 0.
\<close>

theorem run_watch_tests_interrupt:
  "(runner e (spawned tr) watch_cmd = Interrupted \<longrightarrow>
      run_watch_tests e tr = (Inr 0, tr @
        [Print (emoji_eyes @ '' Running tests in watch mode...''),
         Print ''   Press Ctrl+C to stop watching'',
         Run watch_cmd,
         Print (CHR 0x0A # emoji_stop_sign @ '' Watch mode stopped by user'')])) \<and>
   (succeeds e (spawned tr) dotnet_version_cmd \<and>
    runner e (spawned tr @ [dotnet_version_cmd]) watch_cmd = Interrupted \<longrightarrow>
      script_end (fst (main e [Option Flag_watch] tr)) = Exit 0 \<and>
      spawned (snd (main e [Option Flag_watch] tr)) = spawned tr @ [dotnet_version_cmd, watch_cmd])"
proof -
  have w: "run_watch_tests e t = (Inr 0, t @
        [Print (emoji_eyes @ '' Running tests in watch mode...''),
         Print ''   Press Ctrl+C to stop watching'',
         Run watch_cmd,
         Print (CHR 0x0A # emoji_stop_sign @ '' Watch mode stopped by user'')])"
    if "runner e (spawned t) watch_cmd = Interrupted" for t
    using that by (simp add: run_watch_tests_def subprocess_run_def spawned_append)
  have m: "script_end (fst (main e [Option Flag_watch] tr)) = Exit 0 \<and>
      spawned (snd (main e [Option Flag_watch] tr)) = spawned tr @ [dotnet_version_cmd, watch_cmd]"
    if a: "succeeds e (spawned tr) dotnet_version_cmd \<and>
      runner e (spawned tr @ [dotnet_version_cmd]) watch_cmd = Interrupted"
  proof -
    let ?t0 = "print_banner (tr @ [Chdir_script_dir])"
    from a have "succeeds e (spawned ?t0) dotnet_version_cmd"
      by (simp add: spawned_print_banner spawned_append)
    from check_dotnet_ok [OF this] obtain t1 where
      c: "check_dotnet e ?t0 = (Inr True, t1)"
      and s1: "spawned t1 = spawned tr @ [dotnet_version_cmd]"
      by (auto simp: spawned_print_banner spawned_append)
    from a s1 have "runner e (spawned t1) watch_cmd = Interrupted" by simp
    from w [OF this] main_dispatch [of e "[Flag_watch]" tr] c s1
    show ?thesis
      by (simp add: mode_priority_def spawned_print_summary spawned_append)
  qed
  from w [of tr] m show ?thesis by blast
qed

theorem run_watch_tests_interrupt_witness:
  "runner interrupt_env (spawned []) watch_cmd = Interrupted \<and>
   succeeds interrupt_env (spawned []) dotnet_version_cmd \<and>
   fst (run_watch_tests interrupt_env []) = Inr 0 \<and>
   script_end (fst (main interrupt_env [Option Flag_watch] [])) = Exit 0 \<and>
   spawned (snd (main interrupt_env [Option Flag_watch] [])) = [dotnet_version_cmd, watch_cmd]"
  using run_watch_tests_interrupt [of interrupt_env "[]"]
  by (simp add: succeeds_def interrupt_env_def scripted_sel watch_cmd_def server_cmd_def
      dotnet_version_cmd_def project_file_def)

section \<open>The command line of the test runner\<close>


lemma find_single:
  "find (\<lambda>p. p \<in> set (case find (\<lambda>p. p \<in> set fs) ps of None \<Rightarrow> [] | Some q \<Rightarrow> [q])) ps
     = find (\<lambda>p. p \<in> set fs) ps"
proof (cases "find (\<lambda>p. p \<in> set fs) ps")
  case None
  then show ?thesis by (induction ps) (auto split: if_splits)
next
  case (Some q)
  then have "find (\<lambda>p. p = q) ps = Some q"
    by (induction ps) (auto split: if_splits)
  with Some show ?thesis by simp
qed

lemma map_Option_single:
  "map Option (case r of None \<Rightarrow> [] | Some q \<Rightarrow> [q]) = (case r of None \<Rightarrow> [] | Some q \<Rightarrow> [Option q])"
  by (cases r) simp_all















lemma steps_unit_service: "parser_steps [''--unit'', ''-s''] = [Option Flag_unit, Option Flag_service]"
  by code_simp







section \<open>The choice of the mode\<close>

text \<open>
  C10. Whatever flags are given, \<open>main\<close> runs one mode: that of the first flag, in the
  order coverage, unit, service, integration, stdio, fast, watch, that is among the given
  ones, and all test projects when none of these seven is. The run is the same, event for
  event, as the run with that one flag alone (or with no flag): the other flags, \<open>--all\<close>
  among them, change nothing.
\<close>

theorem main_mode_priority:
  "main e (map Option fs) tr =
     main e (case find (\<lambda>p. p \<in> set fs) mode_priority of None \<Rightarrow> [] | Some p \<Rightarrow> [Option p]) tr \<and>
   main e (map Option fs) tr =
     (case check_dotnet e (print_banner (tr @ [Chdir_script_dir])) of
        (Inl x, t) \<Rightarrow> (Inl x, t)
      | (Inr ok, t) \<Rightarrow>
          if \<not> ok then (Inl (SystemExit 1), t)
          else (case run_mode e (find (\<lambda>p. p \<in> set fs) mode_priority) t of
                  (Inl x, t') \<Rightarrow> (Inl x, t')
                | (Inr c, t') \<Rightarrow> (Inl (SystemExit c), print_summary c t')))"
proof -
  let ?w = "case find (\<lambda>p. p \<in> set fs) mode_priority of None \<Rightarrow> [] | Some q \<Rightarrow> [q]"
  have "main e (map Option ?w) tr = main e (map Option fs) tr"
    unfolding main_dispatch find_single ..
  then have "main e (map Option fs) tr =
     main e (case find (\<lambda>p. p \<in> set fs) mode_priority of None \<Rightarrow> [] | Some p \<Rightarrow> [Option p]) tr"
    unfolding map_Option_single by (rule sym)
  moreover note main_dispatch [of e fs tr]
  ultimately show ?thesis by (rule conjI)
qed

section \<open>The order of the server starter\<close>

lemmas emoji_defs = emoji_test_tube_def emoji_bar_chart_def emoji_warning_def emoji_cross_def
  emoji_magnifier_def emoji_check_def emoji_construction_def emoji_direct_hit_def
  emoji_chart_up_def emoji_runner_def emoji_eyes_def emoji_stop_sign_def emoji_party_def
  emoji_rocket_def emoji_broom_def emoji_hammer_def emoji_globe_def emoji_memo_def
  emoji_stop_button_def emoji_hospital_def emoji_info_def emoji_clipboard_def emoji_link_def

lemma steps_append: "steps e (a @ b) = steps e a @ steps e b"
  by (induction a) (simp_all split: option.splits)

lemma step_of_cmds:
  "step_of e (Run dotnet_version_cmd) = Some CheckPrerequisites"
  "step_of e (Run (kill_cmd e)) = Some KillStaleInstances"
  "step_of e (Run srv_build_cmd) = Some Build"
  "step_of e (Run server_cmd) = Some RunBlocking"
  by (simp_all add: kill_cmd_def taskkill_cmd_def pkill_cmd_def dotnet_version_cmd_def
      srv_build_cmd_def server_cmd_def)

lemma not_header:
  "emoji_check @ x \<noteq> endpoints_header"
  "emoji_warning @ x \<noteq> endpoints_header"
  "emoji_cross @ x \<noteq> endpoints_header"
  "emoji_rocket @ x \<noteq> endpoints_header"
  "emoji_broom @ x \<noteq> endpoints_header"
  "emoji_hammer @ x \<noteq> endpoints_header"
  "CHR 0x0A # emoji_stop_sign @ x \<noteq> endpoints_header"
  "CHR '' '' # x \<noteq> endpoints_header"
  by (simp_all add: endpoints_header_def emoji_defs)

lemma replicate_50: "replicate 50 c = c # replicate 49 c"
proof -
  have "(50::nat) = Suc 49" by simp
  then show ?thesis by (simp only: replicate_Suc)
qed

lemma banner_not_header: "replicate 50 CHR ''='' \<noteq> endpoints_header"
  by (simp add: replicate_50 endpoints_header_def)

lemma step_of_prints:
  "step_of e (Print (emoji_check @ x)) = None"
  "step_of e (Print (emoji_warning @ x)) = None"
  "step_of e (Print (emoji_cross @ x)) = None"
  "step_of e (Print (emoji_rocket @ x)) = None"
  "step_of e (Print (emoji_broom @ x)) = None"
  "step_of e (Print (emoji_hammer @ x)) = None"
  "step_of e (Print (CHR 0x0A # emoji_stop_sign @ x)) = None"
  "step_of e (Print (CHR '' '' # x)) = None"
  "step_of e (Print (replicate 50 CHR ''='')) = None"
  by (simp_all add: not_header banner_not_header)

lemma step_of_other:
  "step_of e (Path_exists p) = Some CheckProjectExists"
  "step_of e (Sleep n) = None"
  "step_of e Chdir_script_dir = None"
  by simp_all

declare step_of.simps [simp del]

lemmas step_of_known = step_of_cmds step_of_prints step_of_other

lemma steps_srv_print_banner: "steps e (srv_print_banner tr) = steps e tr"
  by (simp add: srv_print_banner_def steps_append step_of_known)

lemma spawned_srv_print_banner: "spawned (srv_print_banner tr) = spawned tr"
  by (simp add: srv_print_banner_def spawned_append)

lemma steps_print_server_info: "steps e (print_server_info tr) = steps e tr @ [PrintEndpoints]"
  by (simp add: print_server_info_def steps_append step_of.simps endpoints_header_def emoji_defs)

lemma spawned_print_server_info: "spawned (print_server_info tr) = spawned tr"
  by (simp add: print_server_info_def spawned_append)

lemma srv_check_dotnet_steps:
  "steps e (snd (srv_check_dotnet e tr)) = steps e tr @ [CheckPrerequisites]"
  "spawned (snd (srv_check_dotnet e tr)) = spawned tr @ [dotnet_version_cmd]"
  by (auto simp: srv_check_dotnet_def subprocess_run_def Let_def steps_append spawned_append
      step_of_known split: proc_outcome.splits)

lemma srv_check_dotnet_ok:
  assumes "succeeds e (spawned tr) dotnet_version_cmd"
  shows "fst (srv_check_dotnet e tr) = Inr True"
  using assms
  by (auto simp: srv_check_dotnet_def subprocess_run_def succeeds_def Let_def
      split: proc_outcome.splits)

lemma check_project_steps:
  "steps e (snd (check_project e tr)) = steps e tr @ [CheckProjectExists]"
  "spawned (snd (check_project e tr)) = spawned tr"
  "fst (check_project e tr) = path_exists e project_file"
  by (simp_all add: check_project_def Let_def steps_append spawned_append step_of_known)

lemma kill_existing_processes_trace:
  "kill_existing_processes e tr = (Inr (), tr @
     [Print (emoji_broom @ '' Cleaning up any existing server instances...''),
      Run (kill_cmd e), Sleep 2])"
  by (simp add: kill_existing_processes_def subprocess_run_def kill_cmd_def Let_def
      split: proc_outcome.splits)

lemma build_project_steps:
  "steps e (snd (build_project e tr)) = steps e tr @ [Build]"
  "spawned (snd (build_project e tr)) = spawned tr @ [srv_build_cmd]"
  by (auto simp: build_project_def subprocess_run_def Let_def steps_append spawned_append
      step_of_known split: proc_outcome.splits)

lemma build_project_ok:
  assumes "succeeds e (spawned tr) srv_build_cmd"
  shows "fst (build_project e tr) = Inr True"
  using assms
  by (auto simp: build_project_def subprocess_run_def succeeds_def Let_def spawned_append
      split: proc_outcome.splits)

lemma start_server_steps:
  "steps e (snd (start_server e tr)) = steps e tr @ [RunBlocking]"
  "spawned (snd (start_server e tr)) = spawned tr @ [server_cmd]"
  by (auto simp: start_server_def subprocess_run_def steps_append spawned_append
      step_of_known split: proc_outcome.splits)


lemma srv_main_after_checks:
  assumes c: "fst (srv_check_dotnet e (srv_print_banner (tr @ [Chdir_script_dir]))) = Inr True"
    and p: "path_exists e project_file"
  shows "srv_main e tr =
     (case build_project e
             (snd (srv_check_dotnet e (srv_print_banner (tr @ [Chdir_script_dir]))) @
              [Path_exists project_file,
               Print (emoji_broom @ '' Cleaning up any existing server instances...''),
               Run (kill_cmd e), Sleep 2]) of
        (Inl x, t4) \<Rightarrow> (Inl x, t4)
      | (Inr built, t4) \<Rightarrow>
          if \<not> built then (Inl (SystemExit 1), t4)
          else start_server e (print_server_info t4))"
proof -
  obtain r t1 where rt: "srv_check_dotnet e (srv_print_banner (tr @ [Chdir_script_dir])) = (r, t1)"
    by (cases "srv_check_dotnet e (srv_print_banner (tr @ [Chdir_script_dir]))")
  with c have r: "r = Inr True" by simp
  show ?thesis
    by (simp add: srv_main_def rt r check_project_def p kill_existing_processes_trace Let_def)
qed

lemma srv_main_startup:
  assumes "startup_ok e (spawned tr)"
  shows "\<exists>t. srv_main e tr = start_server e t \<and>
           spawned t = spawned tr @ [dotnet_version_cmd, kill_cmd e, srv_build_cmd] \<and>
           steps e t = steps e tr @
             [CheckPrerequisites, CheckProjectExists, KillStaleInstances, Build, PrintEndpoints]"
proof -
  let ?t0 = "srv_print_banner (tr @ [Chdir_script_dir])"
  let ?t1 = "snd (srv_check_dotnet e ?t0)"
  let ?t3 = "?t1 @ [Path_exists project_file,
               Print (emoji_broom @ '' Cleaning up any existing server instances...''),
               Run (kill_cmd e), Sleep 2]"
  from assms have v: "succeeds e (spawned tr) dotnet_version_cmd"
    and p: "path_exists e project_file"
    and b: "succeeds e (spawned tr @ [dotnet_version_cmd, kill_cmd e]) srv_build_cmd"
    by (simp_all add: startup_ok_def)
  have sp0: "spawned ?t0 = spawned tr"
    by (simp add: spawned_srv_print_banner spawned_append)
  have st0: "steps e ?t0 = steps e tr"
    by (simp add: steps_srv_print_banner steps_append step_of_known)
  from v sp0 have c: "fst (srv_check_dotnet e ?t0) = Inr True"
    by (intro srv_check_dotnet_ok) simp
  have sp3: "spawned ?t3 = spawned tr @ [dotnet_version_cmd, kill_cmd e]"
    by (simp add: spawned_append srv_check_dotnet_steps sp0)
  have st3: "steps e ?t3 = steps e tr @ [CheckPrerequisites, CheckProjectExists, KillStaleInstances]"
    by (simp add: steps_append srv_check_dotnet_steps st0 step_of_known)
  from b sp3 have bo: "fst (build_project e ?t3) = Inr True"
    by (intro build_project_ok) simp
  obtain rb t4 where bp: "build_project e ?t3 = (rb, t4)"
    by (cases "build_project e ?t3")
  with bo have rb: "rb = Inr True" by simp
  from build_project_steps [of e ?t3] bp
  have st4: "steps e t4 = steps e ?t3 @ [Build]"
    and sp4: "spawned t4 = spawned ?t3 @ [srv_build_cmd]"
    by simp_all
  have m: "srv_main e tr = start_server e (print_server_info t4)"
    by (simp add: srv_main_after_checks [OF c p] bp rb)
  have sp5: "spawned (print_server_info t4) = spawned tr @ [dotnet_version_cmd, kill_cmd e, srv_build_cmd]"
    by (simp add: spawned_print_server_info sp4 sp3)
  have st5: "steps e (print_server_info t4) = steps e tr @
      [CheckPrerequisites, CheckProjectExists, KillStaleInstances, Build, PrintEndpoints]"
    by (simp add: steps_print_server_info st4 st3)
  show ?thesis
    by (intro exI [of _ "print_server_info t4"] conjI) (rule m sp5 st5)+
qed

lemma srv_main_prefix:
  "\<exists>n. steps e (snd (srv_main e tr)) = steps e tr @ take n lifecycle"
proof -
  let ?t0 = "srv_print_banner (tr @ [Chdir_script_dir])"
  let ?t1 = "snd (srv_check_dotnet e ?t0)"
  let ?t2 = "?t1 @ [Path_exists project_file]"
  let ?t3 = "?t1 @ [Path_exists project_file,
               Print (emoji_broom @ '' Cleaning up any existing server instances...''),
               Run (kill_cmd e), Sleep 2]"
  have st0: "steps e ?t0 = steps e tr"
    by (simp add: steps_srv_print_banner steps_append step_of_known)
  have st1: "steps e ?t1 = steps e tr @ take 1 lifecycle"
    by (simp add: srv_check_dotnet_steps st0 lifecycle_def)
  obtain r t1 where rt: "srv_check_dotnet e ?t0 = (r, t1)"
    by (cases "srv_check_dotnet e ?t0")
  then have t1: "t1 = ?t1" by simp
  show ?thesis
  proof (cases "r = Inr True")
    case False
    have "snd (srv_main e tr) = ?t1"
    proof (cases r)
      case (Inl x)
      with rt show ?thesis by (simp add: srv_main_def)
    next
      case (Inr ok)
      with False have "\<not> ok" by simp
      with rt Inr show ?thesis by (simp add: srv_main_def)
    qed
    with st1 have "steps e (snd (srv_main e tr)) = steps e tr @ take 1 lifecycle"
      by simp
    then show ?thesis by (rule exI)
  next
    case True
    show ?thesis
    proof (cases "path_exists e project_file")
      case False
      then have "snd (srv_main e tr) = ?t2 @
          [Print (emoji_cross @ '' Project file not found. Make sure you'' @ [CHR 0x27]
                           @ ''re in the correct directory.'')]"
        using rt True by (simp add: srv_main_def check_project_def Let_def)
      then have "steps e (snd (srv_main e tr)) = steps e tr @ take 2 lifecycle"
        by (simp add: steps_append srv_check_dotnet_steps st0 step_of_known lifecycle_def)
      then show ?thesis by (rule exI)
    next
      case p: True
      from True rt have c: "fst (srv_check_dotnet e ?t0) = Inr True" by simp
      note m = srv_main_after_checks [OF c p]
      have st3: "steps e ?t3 = steps e tr @ take 3 lifecycle"
        by (simp add: steps_append srv_check_dotnet_steps st0 step_of_known lifecycle_def)
      obtain rb t4 where bp: "build_project e ?t3 = (rb, t4)"
        by (cases "build_project e ?t3")
      with build_project_steps(1) [of e ?t3] st3
      have st4: "steps e t4 = steps e tr @ take 4 lifecycle"
        by (simp add: lifecycle_def)
      show ?thesis
      proof (cases "rb = Inr True")
        case False
        have "snd (srv_main e tr) = t4"
        proof (cases rb)
          case (Inl x)
          with bp show ?thesis by (simp add: m)
        next
          case (Inr built)
          with False have "\<not> built" by simp
          with bp Inr show ?thesis by (simp add: m)
        qed
        with st4 have "steps e (snd (srv_main e tr)) = steps e tr @ take 4 lifecycle"
          by simp
        then show ?thesis by (rule exI)
      next
        case True
        then have "srv_main e tr = start_server e (print_server_info t4)"
          using m bp by simp
        then have "steps e (snd (srv_main e tr)) = steps e tr @ take 6 lifecycle"
          by (simp add: start_server_steps steps_print_server_info st4 lifecycle_def)
        then show ?thesis by (rule exI)
      qed
    qed
  qed
qed

text \<open>
  C4. The steps of \<open>srv_main\<close> that show in a run are always an initial part of the
  sequence CheckPrerequisites, CheckProjectExists, KillStaleInstances, Build,
  PrintEndpoints, RunBlocking, in this order. When every step before the start of the
  server passes, all six are run. When the version query succeeds and the project file
  is missing, the run ends after CheckProjectExists with exit status 1: the version query
  is the only command invoked, so neither the termination command nor the build is.
\<close>

theorem srv_main_order:
  "(\<exists>n. steps e (snd (srv_main e tr)) = steps e tr @ take n lifecycle) \<and>
   (startup_ok e (spawned tr) \<longrightarrow>
      steps e (snd (srv_main e tr)) = steps e tr @ lifecycle) \<and>
   (succeeds e (spawned tr) dotnet_version_cmd \<and> \<not> path_exists e project_file \<longrightarrow>
      script_end (fst (srv_main e tr)) = Exit 1 \<and>
      steps e (snd (srv_main e tr)) = steps e tr @ [CheckPrerequisites, CheckProjectExists] \<and>
      spawned (snd (srv_main e tr)) = spawned tr @ [dotnet_version_cmd])"
proof -
  have all: "steps e (snd (srv_main e tr)) = steps e tr @ lifecycle"
    if "startup_ok e (spawned tr)"
  proof -
    from srv_main_startup [OF that] obtain t where
      m: "srv_main e tr = start_server e t"
      and st: "steps e t = steps e tr @
             [CheckPrerequisites, CheckProjectExists, KillStaleInstances, Build, PrintEndpoints]"
      by (elim exE conjE)
    show ?thesis
      by (simp add: m start_server_steps st lifecycle_def)
  qed
  have missing: "script_end (fst (srv_main e tr)) = Exit 1 \<and>
      steps e (snd (srv_main e tr)) = steps e tr @ [CheckPrerequisites, CheckProjectExists] \<and>
      spawned (snd (srv_main e tr)) = spawned tr @ [dotnet_version_cmd]"
    if h: "succeeds e (spawned tr) dotnet_version_cmd \<and> \<not> path_exists e project_file"
  proof -
    let ?t0 = "srv_print_banner (tr @ [Chdir_script_dir])"
    have sp0: "spawned ?t0 = spawned tr"
      by (simp add: spawned_srv_print_banner spawned_append)
    have st0: "steps e ?t0 = steps e tr"
      by (simp add: steps_srv_print_banner steps_append step_of_known)
    from h sp0 have c: "fst (srv_check_dotnet e ?t0) = Inr True"
      by (intro srv_check_dotnet_ok) simp
    obtain r t1 where rt: "srv_check_dotnet e ?t0 = (r, t1)"
      by (cases "srv_check_dotnet e ?t0")
    with c have r: "r = Inr True" by simp
    from srv_check_dotnet_steps [of e ?t0] rt st0 sp0
    have st1: "steps e t1 = steps e tr @ [CheckPrerequisites]"
      and sp1: "spawned t1 = spawned tr @ [dotnet_version_cmd]"
      by simp_all
    from h have "srv_main e tr = (Inl (SystemExit 1), t1 @ [Path_exists project_file,
        Print (emoji_cross @ '' Project file not found. Make sure you'' @ [CHR 0x27]
                           @ ''re in the correct directory.'')])"
      by (simp add: srv_main_def rt r check_project_def Let_def)
    then show ?thesis
      by (simp add: steps_append spawned_append st1 sp1 step_of_known)
  qed
  from srv_main_prefix [of e tr] all missing show ?thesis
    by blast
qed

theorem srv_main_order_witness:
  "startup_ok healthy_env (spawned []) \<and>
   steps healthy_env (snd (srv_main healthy_env [])) = lifecycle \<and>
   succeeds no_project_env (spawned []) dotnet_version_cmd \<and>
   \<not> path_exists no_project_env project_file \<and>
   script_end (fst (srv_main no_project_env [])) = Exit 1 \<and>
   steps no_project_env (snd (srv_main no_project_env [])) = [CheckPrerequisites, CheckProjectExists] \<and>
   spawned (snd (srv_main no_project_env [])) = [dotnet_version_cmd]"
proof -
  have a: "startup_ok healthy_env (spawned [])"
    by (simp add: startup_ok_def succeeds_def healthy_env_def scripted_sel
        dotnet_version_cmd_def srv_build_cmd_def)
  have b: "succeeds no_project_env (spawned []) dotnet_version_cmd \<and>
      \<not> path_exists no_project_env project_file"
    by (simp add: succeeds_def no_project_env_def scripted_sel)
  note ok = srv_main_order [of healthy_env "[]", THEN conjunct2, THEN conjunct1, THEN mp, OF a]
  note no = srv_main_order [of no_project_env "[]", THEN conjunct2, THEN conjunct2, THEN mp, OF b]
  from a b ok no show ?thesis by simp
qed

section \<open>The end of the server starter\<close>

lemma start_server_interrupted:
  assumes "runner e (spawned tr) server_cmd = Interrupted"
  shows "start_server e tr = (Inr (), tr @
           [Run server_cmd, Print (CHR 0x0A # emoji_stop_sign @ '' Server stopped by user'')])"
  using assms by (simp add: start_server_def subprocess_run_def)

lemma start_server_failed:
  assumes "runner e (spawned tr) server_cmd = Completed rc out" "rc \<noteq> 0"
  shows "start_server e tr = (Inr (), tr @
           [Run server_cmd,
            Print (emoji_cross @ '' Server failed to start: ''
                     @ str_CalledProcessError e server_cmd rc)])"
  using assms by (simp add: start_server_def subprocess_run_def)

lemma str_int_3: "str_int 3 = ''3''"
  by code_simp

lemma str_CalledProcessError_3:
  "str_CalledProcessError e server_cmd 3 =
     ''Command '' @ [CHR 0x27] @ ''['' @ [CHR 0x27] @ ''dotnet'' @ [CHR 0x27] @ '', '' @
     [CHR 0x27] @ ''run'' @ [CHR 0x27] @ '', '' @ [CHR 0x27] @ ''--project'' @
     [CHR 0x27] @ '', '' @ [CHR 0x27] @
     ''src/WikipediaMcpServer/WikipediaMcpServer.csproj'' @ [CHR 0x27] @ '']'' @
     [CHR 0x27] @ '' returned non-zero exit status 3.''"
  by (simp add: str_CalledProcessError_def str_list_def repr_str_def server_cmd_def
      project_file_def str_int_3)

text \<open>
  C5. On a host where every step before the start of the server passes: when the
  operator interrupts the running server, \<open>start_server\<close> prints that the server was
  stopped by the user and the script ends with exit status 0, as the claim says. When the
  server exits by itself with status 3, \<open>start_server\<close> prints the failure with the
  status 3 in it and returns, and the script ends with exit status 0, not 3: here the
  code departs from the claim.
\<close>

theorem srv_main_server_exit:
  "startup_ok interrupt_env (spawned []) \<and>
   runner interrupt_env (spawned [] @ [dotnet_version_cmd, kill_cmd interrupt_env, srv_build_cmd])
     server_cmd = Interrupted \<and>
   last (snd (srv_main interrupt_env [])) =
     Print (CHR 0x0A # [CHR 0xF0, CHR 0x9F, CHR 0x9B, CHR 0x91] @ '' Server stopped by user'') \<and>
   script_end (fst (srv_main interrupt_env [])) = Exit 0 \<and>
   startup_ok server_exits_env (spawned []) \<and>
   runner server_exits_env (spawned [] @ [dotnet_version_cmd, kill_cmd server_exits_env, srv_build_cmd])
     server_cmd = Completed 3 [] \<and>
   last (snd (srv_main server_exits_env [])) =
     Print ([CHR 0xE2, CHR 0x9D, CHR 0x8C] @
         '' Server failed to start: Command '' @ [CHR 0x27] @ ''['' @ [CHR 0x27] @
         ''dotnet'' @ [CHR 0x27] @ '', '' @ [CHR 0x27] @ ''run'' @ [CHR 0x27] @ '', '' @
         [CHR 0x27] @ ''--project'' @ [CHR 0x27] @ '', '' @ [CHR 0x27] @
         ''src/WikipediaMcpServer/WikipediaMcpServer.csproj'' @ [CHR 0x27] @ '']'' @
         [CHR 0x27] @ '' returned non-zero exit status 3.'') \<and>
   script_end (fst (srv_main server_exits_env [])) = Exit 0"
proof -
  have a1: "startup_ok interrupt_env (spawned [])"
    by (simp add: startup_ok_def succeeds_def interrupt_env_def scripted_sel
        dotnet_version_cmd_def srv_build_cmd_def server_cmd_def watch_cmd_def project_file_def)
  have a2: "runner interrupt_env (spawned [] @ [dotnet_version_cmd, kill_cmd interrupt_env, srv_build_cmd])
      server_cmd = Interrupted"
    by (simp add: interrupt_env_def scripted_sel)
  have b1: "startup_ok server_exits_env (spawned [])"
    by (simp add: startup_ok_def succeeds_def server_exits_env_def scripted_sel
        dotnet_version_cmd_def srv_build_cmd_def server_cmd_def project_file_def)
  have b2: "runner server_exits_env (spawned [] @ [dotnet_version_cmd, kill_cmd server_exits_env, srv_build_cmd])
      server_cmd = Completed 3 []"
    by (simp add: server_exits_env_def scripted_sel)
  from srv_main_startup [OF a1] obtain t where
    m: "srv_main interrupt_env [] = start_server interrupt_env t"
    and sp: "spawned t = spawned [] @ [dotnet_version_cmd, kill_cmd interrupt_env, srv_build_cmd]"
    by (elim exE conjE)
  from a2 sp have "runner interrupt_env (spawned t) server_cmd = Interrupted" by simp
  from start_server_interrupted [OF this]
  have a3: "last (snd (srv_main interrupt_env [])) =
      Print (CHR 0x0A # [CHR 0xF0, CHR 0x9F, CHR 0x9B, CHR 0x91] @ '' Server stopped by user'')"
    and a4: "script_end (fst (srv_main interrupt_env [])) = Exit 0"
    by (simp_all add: m emoji_stop_sign_def)
  from srv_main_startup [OF b1] obtain u where
    n: "srv_main server_exits_env [] = start_server server_exits_env u"
    and su: "spawned u = spawned [] @ [dotnet_version_cmd, kill_cmd server_exits_env, srv_build_cmd]"
    by (elim exE conjE)
  from b2 su have r: "runner server_exits_env (spawned u) server_cmd = Completed 3 []" by simp
  have "(3::int) \<noteq> 0" by simp
  from start_server_failed [OF r this]
  have b3: "last (snd (srv_main server_exits_env [])) =
     Print ([CHR 0xE2, CHR 0x9D, CHR 0x8C] @
         '' Server failed to start: Command '' @ [CHR 0x27] @ ''['' @ [CHR 0x27] @
         ''dotnet'' @ [CHR 0x27] @ '', '' @ [CHR 0x27] @ ''run'' @ [CHR 0x27] @ '', '' @
         [CHR 0x27] @ ''--project'' @ [CHR 0x27] @ '', '' @ [CHR 0x27] @
         ''src/WikipediaMcpServer/WikipediaMcpServer.csproj'' @ [CHR 0x27] @ '']'' @
         [CHR 0x27] @ '' returned non-zero exit status 3.'')"
    and b4: "script_end (fst (srv_main server_exits_env [])) = Exit 0"
    by (simp_all add: n emoji_cross_def str_CalledProcessError_3)
  show ?thesis
    by (intro conjI) (rule a1 a2 a3 a4 b1 b2 b3 b4)+
qed

section \<open>The termination of stale servers\<close>

lemma build_project_extends:
  "\<exists>post. snd (build_project e t) = t @
     [Print (emoji_hammer @ '' Building the project...''), Run srv_build_cmd] @ post"
  by (simp add: build_project_def subprocess_run_def Let_def split: proc_outcome.splits)

lemma start_server_extends: "\<exists>post. snd (start_server e t) = t @ post"
  by (simp add: start_server_def subprocess_run_def split: proc_outcome.splits)

lemma print_server_info_extends: "\<exists>post. print_server_info t = t @ post"
  by (simp add: print_server_info_def)

lemma srv_main_after_checks_extends:
  assumes c: "fst (srv_check_dotnet e (srv_print_banner (tr @ [Chdir_script_dir]))) = Inr True"
    and p: "path_exists e project_file"
  shows "\<exists>pre post. snd (srv_main e tr) = pre @
     [Run (kill_cmd e), Sleep 2,
      Print (emoji_hammer @ '' Building the project...''), Run srv_build_cmd] @ post"
proof -
  let ?t1 = "snd (srv_check_dotnet e (srv_print_banner (tr @ [Chdir_script_dir])))"
  let ?pre = "?t1 @ [Path_exists project_file,
               Print (emoji_broom @ '' Cleaning up any existing server instances...'')]"
  let ?t3 = "?pre @ [Run (kill_cmd e), Sleep 2]"
  let ?mid = "[Run (kill_cmd e), Sleep 2,
      Print (emoji_hammer @ '' Building the project...''), Run srv_build_cmd]"
  have m: "srv_main e tr =
     (case build_project e ?t3 of
        (Inl x, t4) \<Rightarrow> (Inl x, t4)
      | (Inr built, t4) \<Rightarrow>
          if \<not> built then (Inl (SystemExit 1), t4)
          else start_server e (print_server_info t4))"
    using srv_main_after_checks [OF c p] by simp
  obtain rb t4 where bp: "build_project e ?t3 = (rb, t4)"
    by (cases "build_project e ?t3")
  from build_project_extends [of e ?t3] bp obtain post where
    t4: "t4 = ?pre @ ?mid @ post"
    by auto
  show ?thesis
  proof (cases "rb = Inr True")
    case True
    obtain p1 where p1: "print_server_info t4 = t4 @ p1"
      using print_server_info_extends by blast
    obtain p2 where p2: "snd (start_server e (t4 @ p1)) = (t4 @ p1) @ p2"
      using start_server_extends by blast
    from True bp have "snd (srv_main e tr) = (t4 @ p1) @ p2"
      by (simp add: m p1 p2)
    then have "snd (srv_main e tr) = ?pre @ ?mid @ (post @ p1 @ p2)"
      by (simp add: t4)
    then show ?thesis by (intro exI)
  next
    case False
    have "snd (srv_main e tr) = t4"
    proof (cases rb)
      case (Inl x)
      with bp show ?thesis by (simp add: m)
    next
      case (Inr built)
      with False have "\<not> built" by simp
      with bp Inr show ?thesis by (simp add: m)
    qed
    then have "snd (srv_main e tr) = ?pre @ ?mid @ post"
      by (simp add: t4)
    then show ?thesis by (intro exI)
  qed
qed

text \<open>
  C8. \<open>kill_existing_processes\<close> runs one termination command, chosen by the host
  system: \<open>taskkill\<close> on the process name \<open>dotnet.exe\<close> on Windows, \<open>pkill\<close> on the
  command-line pattern \<open>dotnet.*WikipediaMcpServer\<close> elsewhere. Whatever becomes of the
  command (any return code, not found, interrupted), the function sleeps two seconds and
  returns normally. In \<open>srv_main\<close>, once the version query has succeeded and the project
  file exists, the termination command, the sleep and the build follow one another.
\<close>

theorem kill_existing_processes_best_effort:
  "kill_existing_processes e tr = (Inr (), tr @
     [Print (emoji_broom @ '' Cleaning up any existing server instances...''),
      Run (if system e = ''Windows'' then [''taskkill'', ''/f'', ''/im'', ''dotnet.exe'']
           else [''pkill'', ''-f'', ''dotnet.*WikipediaMcpServer'']),
      Sleep 2]) \<and>
   (succeeds e (spawned tr) dotnet_version_cmd \<and> path_exists e project_file \<longrightarrow>
      (\<exists>pre post. snd (srv_main e tr) = pre @
         [Run (kill_cmd e), Sleep 2,
          Print (emoji_hammer @ '' Building the project...''), Run srv_build_cmd] @ post))"
proof -
  have k: "kill_existing_processes e tr = (Inr (), tr @
     [Print (emoji_broom @ '' Cleaning up any existing server instances...''),
      Run (if system e = ''Windows'' then [''taskkill'', ''/f'', ''/im'', ''dotnet.exe'']
           else [''pkill'', ''-f'', ''dotnet.*WikipediaMcpServer'']),
      Sleep 2])"
    by (simp add: kill_existing_processes_trace kill_cmd_def taskkill_cmd_def pkill_cmd_def)
  have b: "\<exists>pre post. snd (srv_main e tr) = pre @
         [Run (kill_cmd e), Sleep 2,
          Print (emoji_hammer @ '' Building the project...''), Run srv_build_cmd] @ post"
    if h: "succeeds e (spawned tr) dotnet_version_cmd \<and> path_exists e project_file"
  proof -
    have "spawned (srv_print_banner (tr @ [Chdir_script_dir])) = spawned tr"
      by (simp add: spawned_srv_print_banner spawned_append)
    with h have c: "fst (srv_check_dotnet e (srv_print_banner (tr @ [Chdir_script_dir]))) = Inr True"
      by (intro srv_check_dotnet_ok) simp
    from h have p: "path_exists e project_file" by simp
    show ?thesis by (rule srv_main_after_checks_extends [OF c p])
  qed
  show ?thesis
  proof (rule conjI)
    show "kill_existing_processes e tr = (Inr (), tr @
     [Print (emoji_broom @ '' Cleaning up any existing server instances...''),
      Run (if system e = ''Windows'' then [''taskkill'', ''/f'', ''/im'', ''dotnet.exe'']
           else [''pkill'', ''-f'', ''dotnet.*WikipediaMcpServer'']),
      Sleep 2])"
      by (rule k)
    show "succeeds e (spawned tr) dotnet_version_cmd \<and> path_exists e project_file \<longrightarrow>
      (\<exists>pre post. snd (srv_main e tr) = pre @
         [Run (kill_cmd e), Sleep 2,
          Print (emoji_hammer @ '' Building the project...''), Run srv_build_cmd] @ post)"
      by (rule impI) (rule b)
  qed
qed

theorem kill_existing_processes_best_effort_witness:
  "runner windows_env [] taskkill_cmd = Not_found \<and>
   succeeds windows_env (spawned []) dotnet_version_cmd \<and>
   path_exists windows_env project_file \<and>
   kill_existing_processes windows_env [] = (Inr (),
     [Print (emoji_broom @ '' Cleaning up any existing server instances...''),
      Run [''taskkill'', ''/f'', ''/im'', ''dotnet.exe''], Sleep 2]) \<and>
   (\<exists>pre post. snd (srv_main windows_env []) = pre @
         [Run taskkill_cmd, Sleep 2,
          Print (emoji_hammer @ '' Building the project...''), Run srv_build_cmd] @ post)"
proof -
  have s: "system windows_env = ''Windows''"
    by (simp add: windows_env_def scripted_sel)
  have a: "succeeds windows_env (spawned []) dotnet_version_cmd \<and>
      path_exists windows_env project_file"
    by (simp add: succeeds_def windows_env_def scripted_sel dotnet_version_cmd_def
        taskkill_cmd_def)
  have n: "runner windows_env [] taskkill_cmd = Not_found"
    by (simp add: windows_env_def scripted_sel)
  note t = kill_existing_processes_best_effort [of windows_env "[]"]
  from t [THEN conjunct1]
  have 1: "kill_existing_processes windows_env [] = (Inr (),
     [Print (emoji_broom @ '' Cleaning up any existing server instances...''),
      Run [''taskkill'', ''/f'', ''/im'', ''dotnet.exe''], Sleep 2])"
    by (simp add: s)
  from t [THEN conjunct2, THEN mp, OF a]
  have 2: "\<exists>pre post. snd (srv_main windows_env []) = pre @
         [Run taskkill_cmd, Sleep 2,
          Print (emoji_hammer @ '' Building the project...''), Run srv_build_cmd] @ post"
    by (simp add: kill_cmd_def s)
  show ?thesis
    by (intro conjI) (rule n a [THEN conjunct1] a [THEN conjunct2] 1 2)+
qed

end
